theory Spec2Isabelle
  imports Main "HOL-Library.Word"
begin

section \<open>ethdo: validator deposit data (cmd/validatordepositdata.go)\<close>

text \<open>
  A shallow embedding of the \<^verbatim>\<open>Run\<close> function of \<^verbatim>\<open>validatorDepositDataCmd\<close>.
  Byte slices are lists of 8-bit words, Go strings are HOL strings, the \<^verbatim>\<open>uint64\<close>
  amount is a 64-bit word.  Everything the command does to the outside world (printing,
  calling the beacon node, asking an account for a signature, hashing) is recorded, in
  order, in a trace of events; \<^verbatim>\<open>os.Exit\<close> and a Go panic end the run with an outcome.
\<close>

subsection \<open>Bytes, hexadecimal and decimal text (Go's fmt, encoding/hex, strings)\<close>

type_synonym byte = "8 word"
type_synonym bytes = "byte list"
type_synonym error = string

definition nl :: char where
  "nl = CHR 0x0A"

definition tab :: char where
  "tab = CHR 0x09"

definition dq :: char where
  "dq = CHR 0x22"

definition hexdigits :: string where
  "hexdigits = ''0123456789abcdef''"

text \<open>The verb \<^verbatim>\<open>%x\<close> on a byte slice or byte array: two lower-case digits per byte.\<close>

definition hexByte :: "byte \<Rightarrow> string" where
  "hexByte b = [hexdigits ! (unat b div 16), hexdigits ! (unat b mod 16)]"

definition hexEncode :: "bytes \<Rightarrow> string" where
  "hexEncode bs = concat (map hexByte bs)"

text \<open>The verb \<^verbatim>\<open>%#x\<close>: one leading \<^verbatim>\<open>0x\<close> for the whole slice; fmt prints nothing at
  all for an empty slice.\<close>

definition sharpHex :: "bytes \<Rightarrow> string" where
  "sharpHex bs = (if bs = [] then [] else ''0x'' @ hexEncode bs)"

text \<open>The verb \<^verbatim>\<open>%d\<close> on an unsigned integer.\<close>

definition digit :: "nat \<Rightarrow> char" where
  "digit d = ''0123456789'' ! d"

fun decimal :: "nat \<Rightarrow> string" where
  "decimal n = (if n < 10 then [digit n] else decimal (n div 10) @ [digit (n mod 10)])"

declare decimal.simps [simp del]

text \<open>\<^verbatim>\<open>strings.TrimPrefix\<close> and \<^verbatim>\<open>strings.Join\<close>.\<close>

definition TrimPrefix :: "string \<Rightarrow> string \<Rightarrow> string" where
  "TrimPrefix s p = (if take (length p) s = p then drop (length p) s else s)"

fun Join :: "string list \<Rightarrow> string \<Rightarrow> string" where
  "Join [] sep = []"
| "Join [x] sep = x"
| "Join (x # y # ys) sep = x @ sep @ Join (y # ys) sep"

text \<open>\<^verbatim>\<open>hex.DecodeString\<close>: digits of either case, two per byte, read from the left; the
  first bad character or an odd length is an error.\<close>

definition fromHexChar :: "char \<Rightarrow> nat option" where
  "fromHexChar c =
     (let n = of_char c :: nat in
      if 48 \<le> n \<and> n \<le> 57 then Some (n - 48)
      else if 97 \<le> n \<and> n \<le> 102 then Some (n - 97 + 10)
      else if 65 \<le> n \<and> n \<le> 70 then Some (n - 65 + 10)
      else None)"

fun DecodeString :: "string \<Rightarrow> error + bytes" where
  "DecodeString [] = Inr []"
| "DecodeString [c] =
     (case fromHexChar c of
        None \<Rightarrow> Inl ''encoding/hex: invalid byte''
      | Some _ \<Rightarrow> Inl ''encoding/hex: odd length hex string'')"
| "DecodeString (p # q # rest) =
     (case fromHexChar p of
        None \<Rightarrow> Inl ''encoding/hex: invalid byte''
      | Some a \<Rightarrow>
          (case fromHexChar q of
             None \<Rightarrow> Inl ''encoding/hex: invalid byte''
           | Some b \<Rightarrow>
               (case DecodeString rest of
                  Inl e \<Rightarrow> Inl e
                | Inr bs \<Rightarrow> Inr (word_of_nat (a * 16 + b) # bs))))"

subsection \<open>The data of the command\<close>

text \<open>The package-level flag variables, with the global \<^verbatim>\<open>quiet\<close>, \<^verbatim>\<open>verbose\<close> and
  \<^verbatim>\<open>debug\<close> switches the command reads.\<close>

record flags =
  validatorDepositDataValidatorAccount :: string
  validatorDepositDataWithdrawalAccount :: string
  validatorDepositDataWithdrawalPubKey :: string
  validatorDepositDataDepositValue :: string
  validatorDepositDataRaw :: bool
  validatorDepositDataForkVersion :: string
  validatorDepositDataLaunchpad :: bool
  quiet :: bool
  verbose :: bool
  debug :: bool

text \<open>A wallet is only asked for its name; a public key and a signature only for their
  marshalled bytes.\<close>

datatype wallet = Wallet (Name: string)
datatype pubkey = BLSPublicKey (Marshal: bytes)
datatype signature = BLSSignature (MarshalSignature: bytes)

text \<open>The two anonymous structs handed to the signer and to \<^verbatim>\<open>ssz.HashTreeRoot\<close>.\<close>

record depositData =
  PubKey :: bytes
  WithdrawalCredentials :: bytes
  Value :: "64 word"

record signedDepositData = depositData +
  Signature :: bytes

datatype sszStruct = Unsigned depositData | Signed signedDepositData

text \<open>A value of the chain configuration map (\<^verbatim>\<open>map[string]interface{}\<close>).\<close>

datatype configValue = BytesValue bytes | OtherValue

text \<open>What the run does to the world, in order.  \<^verbatim>\<open>Stdout\<close> is a direct
  \<^verbatim>\<open>fmt.Printf\<close>, \<^verbatim>\<open>fmt.Print\<close> or \<^verbatim>\<open>fmt.Println\<close>; \<^verbatim>\<open>Stderr\<close> is the message of a failed
  \<^verbatim>\<open>errCheck\<close> or \<^verbatim>\<open>assert\<close>; \<^verbatim>\<open>OutputIf\<close> is a message passed to the helper
  \<^verbatim>\<open>outputIf\<close>, whose stream is decided outside this file.\<close>

datatype 'a event =
    Stdout string
  | Stderr string
  | OutputIf string
  | CalledSHA256 bytes
  | CalledConnect
  | CalledFetchChainConfig
  | CalledSignStruct 'a sszStruct bytes

datatype outcome = Exit int | Panic

type_synonym 'a trace = "'a event list"
type_synonym ('a, 'r) step = "'a trace \<Rightarrow> (outcome + 'r) \<times> 'a trace"

text \<open>The collaborators of the command.  The two calls that go to the beacon node
  answer by the number of earlier calls of the same kind, so that a node that answers
  differently the second time is a possible world.\<close>

record 'a env =
  walletAndAccountsFromPath :: "string \<Rightarrow> error + wallet \<times> 'a list"
  walletAndAccountFromPath :: "string \<Rightarrow> error + wallet \<times> 'a"
  accountName :: "'a \<Rightarrow> string"
  bestPublicKey :: "'a \<Rightarrow> error + pubkey"
  BLSPublicKeyFromBytes :: "bytes \<Rightarrow> error + pubkey"
  SHA256 :: "bytes \<Rightarrow> bytes"
  StringToGWei :: "string \<Rightarrow> error + 64 word"
  connect :: "nat \<Rightarrow> error option"
  FetchChainConfig :: "nat \<Rightarrow> error + (string \<rightharpoonup> configValue)"
  DomainDeposit :: bytes
  Domain_e2types :: "bytes \<Rightarrow> bytes \<Rightarrow> bytes \<Rightarrow> bytes"
  signStruct :: "'a \<Rightarrow> sszStruct \<Rightarrow> bytes \<Rightarrow> error + signature"
  HashTreeRoot :: "sszStruct \<Rightarrow> error + bytes"

text \<open>Modelled from the spec: the constant \<^verbatim>\<open>e2types.ZeroGenesisValidatorsRoot\<close> is not in
  the sources; the spec describes it as a 32-byte all-zero genesis-validators-root.\<close>

definition ZeroGenesisValidatorsRoot :: bytes where
  "ZeroGenesisValidatorsRoot = replicate 32 0"

text \<open>Modelled from the spec: the constant \<^verbatim>\<open>_exitFailure\<close> is not in the sources; the
  command's help text says the command returns 0 when the data can be generated and 1
  otherwise.\<close>

definition exitFailure :: int where
  "exitFailure = 1"

subsection \<open>Sequencing, exits and the helper functions\<close>

definition ret :: "'r \<Rightarrow> ('a, 'r) step" where
  "ret x t = (Inr x, t)"

definition andThen :: "('a, 'r) step \<Rightarrow> ('r \<Rightarrow> ('a, 'q) step) \<Rightarrow> ('a, 'q) step" where
  "andThen m k t = (case m t of (Inl h, t') \<Rightarrow> (Inl h, t') | (Inr x, t') \<Rightarrow> k x t')"

definition emit :: "'a event \<Rightarrow> ('a, unit) step" where
  "emit e t = (Inr (), t @ [e])"

definition osExit :: "int \<Rightarrow> ('a, 'r) step" where
  "osExit c t = (Inl (Exit c), t)"

definition panic :: "('a, 'r) step" where
  "panic t = (Inl Panic, t)"

text \<open>Modelled from the spec: the helpers \<^verbatim>\<open>die\<close>, \<^verbatim>\<open>assert\<close> and \<^verbatim>\<open>errCheck\<close> are not in
  the sources.  The spec's error handling design: a descriptive message to an error
  stream and a nonzero exit status; in quiet mode the text is suppressed.  The message
  recorded is the one \<^verbatim>\<open>Run\<close> passes; \<^verbatim>\<open>errCheck\<close> takes the pair of a call's value and
  its error as a sum and hands the value on when the error is nil.\<close>

definition die :: "flags \<Rightarrow> string \<Rightarrow> ('a, 'r) step" where
  "die fl msg = andThen (if quiet fl then ret () else emit (Stderr msg)) (\<lambda>_. osExit exitFailure)"

definition assert :: "flags \<Rightarrow> bool \<Rightarrow> string \<Rightarrow> ('a, unit) step" where
  "assert fl condition msg = (if condition then ret () else die fl msg)"

definition errCheck :: "flags \<Rightarrow> error + 'r \<Rightarrow> string \<Rightarrow> ('a, 'r) step" where
  "errCheck fl r msg = (case r of Inl err \<Rightarrow> die fl msg | Inr v \<Rightarrow> ret v)"

text \<open>The helper \<^verbatim>\<open>outputIf\<close> is not in the sources either: its message is recorded as an
  event of its own kind, and nothing is assumed about the stream it is written to.\<close>

definition outputIf :: "bool \<Rightarrow> string \<Rightarrow> ('a, unit) step" where
  "outputIf condition msg = (if condition then emit (OutputIf msg) else ret ())"

definition printStdout :: "string \<Rightarrow> ('a, unit) step" where
  "printStdout msg = emit (Stdout msg)"

subsection \<open>Calls that leave a mark on the world\<close>

definition callSHA256 :: "'a env \<Rightarrow> bytes \<Rightarrow> ('a, bytes) step" where
  "callSHA256 env b = andThen (emit (CalledSHA256 b)) (\<lambda>_. ret (SHA256 env b))"

definition callConnect :: "'a env \<Rightarrow> ('a, error option) step" where
  "callConnect env t = (Inr (connect env (count_list t CalledConnect)), t @ [CalledConnect])"

definition callFetchChainConfig :: "'a env \<Rightarrow> ('a, error + (string \<rightharpoonup> configValue)) step" where
  "callFetchChainConfig env t =
     (Inr (FetchChainConfig env (count_list t CalledFetchChainConfig)), t @ [CalledFetchChainConfig])"

definition callSignStruct :: "'a env \<Rightarrow> 'a \<Rightarrow> sszStruct \<Rightarrow> bytes \<Rightarrow> ('a, error + signature) step" where
  "callSignStruct env account data domain =
     andThen (emit (CalledSignStruct account data domain)) (\<lambda>_. ret (signStruct env account data domain))"

subsection \<open>Run, lines 56 to 66: the validator accounts\<close>

fun announceAccounts :: "'a env \<Rightarrow> flags \<Rightarrow> wallet \<Rightarrow> 'a list \<Rightarrow> ('a, unit) step" where
  "announceAccounts env fl validatorWallet [] = ret ()"
| "announceAccounts env fl validatorWallet (validatorAccount # rest) =
     andThen (outputIf (verbose fl)
       (''Creating deposit for '' @ Name validatorWallet @ ''/'' @ accountName env validatorAccount)) (\<lambda>_.
     andThen (errCheck fl (bestPublicKey env validatorAccount)
       ''Validator account does not provide a public key'') (\<lambda>pubKey.
     andThen (outputIf (debug fl) (''Validator public key is '' @ sharpHex (Marshal pubKey))) (\<lambda>_.
     announceAccounts env fl validatorWallet rest)))"

definition obtainValidatorAccounts :: "'a env \<Rightarrow> flags \<Rightarrow> ('a, wallet \<times> 'a list) step" where
  "obtainValidatorAccounts env fl =
     andThen (assert fl (validatorDepositDataValidatorAccount fl \<noteq> [])
       ''--validatoraccount is required'') (\<lambda>_.
     andThen (errCheck fl (walletAndAccountsFromPath env (validatorDepositDataValidatorAccount fl))
       ''Failed to obtain validator accounts'') (\<lambda>(validatorWallet, validatorAccounts).
     andThen (assert fl (length validatorAccounts > 0) ''Failed to obtain validator account'') (\<lambda>_.
     andThen (announceAccounts env fl validatorWallet validatorAccounts) (\<lambda>_.
     ret (validatorWallet, validatorAccounts)))))"

subsection \<open>Run, lines 68 to 89: the withdrawal credentials\<close>

text \<open>The \<^verbatim>\<open>errCheck\<close> after each \<^verbatim>\<open>util.SHA256\<close> tests an error already known to be nil
  and does nothing.  The assignment to index 0 of an empty slice is a Go panic.\<close>

definition withdrawalCredentialsOf :: "'a env \<Rightarrow> flags \<Rightarrow> ('a, bytes) step" where
  "withdrawalCredentialsOf env fl =
     andThen (assert fl (validatorDepositDataWithdrawalAccount fl \<noteq> []
                         \<or> validatorDepositDataWithdrawalPubKey fl \<noteq> [])
       ''--withdrawalaccount or --withdrawalpubkey is required'') (\<lambda>_.
     andThen
       (if validatorDepositDataWithdrawalAccount fl \<noteq> [] then
          andThen (errCheck fl (walletAndAccountFromPath env (validatorDepositDataWithdrawalAccount fl))
            ''Failed to obtain withdrawal account'') (\<lambda>(_, withdrawalAccount).
          andThen (errCheck fl (bestPublicKey env withdrawalAccount)
            ''Withdrawal account does not provide a public key'') (\<lambda>pubKey.
          andThen (outputIf (debug fl) (''Withdrawal public key is '' @ sharpHex (Marshal pubKey))) (\<lambda>_.
          callSHA256 env (Marshal pubKey))))
        else
          andThen (errCheck fl
            (DecodeString (TrimPrefix (validatorDepositDataWithdrawalPubKey fl) ''0x''))
            ''Invalid withdrawal public key'') (\<lambda>withdrawalPubKeyBytes.
          andThen (assert fl (length withdrawalPubKeyBytes = 48) ''Public key should be 48 bytes'') (\<lambda>_.
          andThen (errCheck fl (BLSPublicKeyFromBytes env withdrawalPubKeyBytes)
            ''Value supplied with --withdrawalpubkey is not a valid public key'') (\<lambda>withdrawalPubKey.
          callSHA256 env (Marshal withdrawalPubKey)))))
       (\<lambda>withdrawalCredentials.
     andThen (if withdrawalCredentials = [] then panic else ret (withdrawalCredentials[0 := 0]))
       (\<lambda>withdrawalCredentials.
     andThen (outputIf (debug fl) (''Withdrawal credentials are '' @ sharpHex withdrawalCredentials)) (\<lambda>_.
     ret withdrawalCredentials))))"

subsection \<open>Run, lines 91 to 95: the deposit value\<close>

definition depositValueOf :: "'a env \<Rightarrow> flags \<Rightarrow> ('a, 64 word) step" where
  "depositValueOf env fl =
     andThen (assert fl (validatorDepositDataDepositValue fl \<noteq> []) ''--depositvalue is required'') (\<lambda>_.
     andThen (errCheck fl (StringToGWei env (validatorDepositDataDepositValue fl)) ''Invalid value'') (\<lambda>val.
     andThen (assert fl (val \<ge> 1000000000) ''deposit value must be at least 1 Ether'') (\<lambda>_.
     ret val)))"

subsection \<open>Run, lines 113 to 129: the fork version, inside the loop\<close>

text \<open>The type assertion \<^verbatim>\<open>genesisForkVersion.([]byte)\<close> panics on a value of another type.\<close>

definition forkVersionOf :: "'a env \<Rightarrow> flags \<Rightarrow> ('a, bytes) step" where
  "forkVersionOf env fl =
     (if validatorDepositDataForkVersion fl \<noteq> [] then
        andThen (errCheck fl (DecodeString (TrimPrefix (validatorDepositDataForkVersion fl) ''0x''))
          (''Failed to decode fork version '' @ validatorDepositDataForkVersion fl)) (\<lambda>forkVersion.
        andThen (assert fl (length forkVersion = 4) ''Fork version must be exactly four bytes'') (\<lambda>_.
        ret forkVersion))
      else
        andThen (callConnect env) (\<lambda>err.
        andThen (errCheck fl (case err of None \<Rightarrow> Inr () | Some e \<Rightarrow> Inl e)
          ''Failed to connect to beacon node'') (\<lambda>_.
        andThen (callFetchChainConfig env) (\<lambda>fetched.
        (case fetched of
           Inl err \<Rightarrow>
             andThen (outputIf (\<not> quiet fl)
               ''Could not connect to beacon node; supply a connection with --connection or provide a fork version with --forkversion to generate a deposit'') (\<lambda>_.
             osExit exitFailure)
         | Inr config \<Rightarrow>
             andThen (assert fl (config ''GenesisForkVersion'' \<noteq> None)
               ''Failed to obtain genesis fork version'') (\<lambda>_.
             (case config ''GenesisForkVersion'' of
                Some (BytesValue forkVersion) \<Rightarrow> ret forkVersion
              | _ \<Rightarrow> panic)))))))"

subsection \<open>Run, lines 160 to 197: the three renderings\<close>

definition txData :: "bytes \<Rightarrow> bytes \<Rightarrow> bytes \<Rightarrow> bytes \<Rightarrow> bytes" where
  "txData depositDataRoot validatorPubKey withdrawalCredentials signatureBytes =
     [0x22, 0x89, 0x51, 0x18]
     @ [0x00, 0x00, 0x00, 0x00, 0x00, 0x00, 0x00, 0x00, 0x00, 0x00, 0x00, 0x00, 0x00, 0x00, 0x00, 0x00, 0x00, 0x00, 0x00, 0x00, 0x00, 0x00, 0x00, 0x00, 0x00, 0x00, 0x00, 0x00, 0x00, 0x00, 0x00, 0x80]
     @ [0x00, 0x00, 0x00, 0x00, 0x00, 0x00, 0x00, 0x00, 0x00, 0x00, 0x00, 0x00, 0x00, 0x00, 0x00, 0x00, 0x00, 0x00, 0x00, 0x00, 0x00, 0x00, 0x00, 0x00, 0x00, 0x00, 0x00, 0x00, 0x00, 0x00, 0x00, 0xe0]
     @ [0x00, 0x00, 0x00, 0x00, 0x00, 0x00, 0x00, 0x00, 0x00, 0x00, 0x00, 0x00, 0x00, 0x00, 0x00, 0x00, 0x00, 0x00, 0x00, 0x00, 0x00, 0x00, 0x00, 0x00, 0x00, 0x00, 0x00, 0x00, 0x00, 0x00, 0x01, 0x20]
     @ depositDataRoot
     @ [0x00, 0x00, 0x00, 0x00, 0x00, 0x00, 0x00, 0x00, 0x00, 0x00, 0x00, 0x00, 0x00, 0x00, 0x00, 0x00, 0x00, 0x00, 0x00, 0x00, 0x00, 0x00, 0x00, 0x00, 0x00, 0x00, 0x00, 0x00, 0x00, 0x00, 0x00, 0x30]
     @ validatorPubKey
     @ [0x00, 0x00, 0x00, 0x00, 0x00, 0x00, 0x00, 0x00, 0x00, 0x00, 0x00, 0x00, 0x00, 0x00, 0x00, 0x00]
     @ [0x00, 0x00, 0x00, 0x00, 0x00, 0x00, 0x00, 0x00, 0x00, 0x00, 0x00, 0x00, 0x00, 0x00, 0x00, 0x00, 0x00, 0x00, 0x00, 0x00, 0x00, 0x00, 0x00, 0x00, 0x00, 0x00, 0x00, 0x00, 0x00, 0x00, 0x00, 0x20]
     @ withdrawalCredentials
     @ [0x00, 0x00, 0x00, 0x00, 0x00, 0x00, 0x00, 0x00, 0x00, 0x00, 0x00, 0x00, 0x00, 0x00, 0x00, 0x00, 0x00, 0x00, 0x00, 0x00, 0x00, 0x00, 0x00, 0x00, 0x00, 0x00, 0x00, 0x00, 0x00, 0x00, 0x00, 0x60]
     @ signatureBytes"

definition rawOutput :: "bytes \<Rightarrow> bytes \<Rightarrow> bytes \<Rightarrow> bytes \<Rightarrow> string" where
  "rawOutput depositDataRoot validatorPubKey withdrawalCredentials signatureBytes =
     sharpHex (txData depositDataRoot validatorPubKey withdrawalCredentials signatureBytes)"

definition launchpadOutput ::
  "signedDepositData \<Rightarrow> 64 word \<Rightarrow> bytes \<Rightarrow> bytes \<Rightarrow> bytes \<Rightarrow> string" where
  \<open>launchpadOutput signedDepositData val depositMessageRoot depositDataRoot forkVersion =
     ''[{"pubkey":"'' @ hexEncode (PubKey signedDepositData)
     @ ''","withdrawal_credentials":"'' @ hexEncode (WithdrawalCredentials signedDepositData)
     @ ''","amount":'' @ decimal (unat val)
     @ '',"signature":"'' @ hexEncode (Signature signedDepositData)
     @ ''","deposit_message_root":"'' @ hexEncode depositMessageRoot
     @ ''","deposit_data_root":"'' @ hexEncode depositDataRoot
     @ ''","fork_version":"'' @ hexEncode forkVersion
     @ ''"}]''\<close>

definition defaultOutput :: "string \<Rightarrow> string \<Rightarrow> signedDepositData \<Rightarrow> 64 word \<Rightarrow> bytes \<Rightarrow> string" where
  \<open>defaultOutput walletName acctName signedDepositData val depositDataRoot =
     ''{"name":"Deposit for '' @ (walletName @ ''/'' @ acctName)
     @ ''","account":"'' @ (walletName @ ''/'' @ acctName)
     @ ''","pubkey":"'' @ sharpHex (PubKey signedDepositData)
     @ ''","withdrawal_credentials":"'' @ sharpHex (WithdrawalCredentials signedDepositData)
     @ ''","signature":"'' @ sharpHex (Signature signedDepositData)
     @ ''","value":'' @ decimal (unat val)
     @ '',"deposit_data_root":"'' @ sharpHex depositDataRoot
     @ ''","version":2}''\<close>

subsection \<open>Run, lines 99 to 199: one pass of the loop\<close>

definition printSignedDepositData :: "signedDepositData \<Rightarrow> ('a, unit) step" where
  "printSignedDepositData signedDepositData =
     andThen (printStdout (''Signed deposit data:'' @ [nl])) (\<lambda>_.
     andThen (printStdout ('' Public key: '' @ sharpHex (PubKey signedDepositData) @ [nl])) (\<lambda>_.
     andThen (printStdout ('' Withdrawal credentials: ''
                @ sharpHex (WithdrawalCredentials signedDepositData) @ [nl])) (\<lambda>_.
     andThen (printStdout ('' Value: '' @ decimal (unat (Value signedDepositData)) @ [nl])) (\<lambda>_.
     printStdout ('' Signature: '' @ sharpHex (Signature signedDepositData) @ [nl])))))"

definition renderOutput ::
  "'a env \<Rightarrow> flags \<Rightarrow> wallet \<Rightarrow> 'a \<Rightarrow> signedDepositData \<Rightarrow> 64 word \<Rightarrow> bytes \<Rightarrow> bytes
     \<Rightarrow> ('a, string) step" where
  "renderOutput env fl validatorWallet validatorAccount signedDepositData val depositDataRoot forkVersion =
     (if validatorDepositDataRaw fl then
        ret (rawOutput depositDataRoot (PubKey signedDepositData)
               (WithdrawalCredentials signedDepositData) (Signature signedDepositData))
      else if validatorDepositDataLaunchpad fl then
        andThen (errCheck fl
          (HashTreeRoot env (Unsigned \<lparr>PubKey = PubKey signedDepositData,
             WithdrawalCredentials = WithdrawalCredentials signedDepositData, Value = val\<rparr>))
          ''Failed to generate deposit message root'') (\<lambda>depositMessageRoot.
        ret (launchpadOutput signedDepositData val depositMessageRoot depositDataRoot forkVersion))
      else
        ret (defaultOutput (Name validatorWallet) (accountName env validatorAccount)
               signedDepositData val depositDataRoot))"

definition depositFor ::
  "'a env \<Rightarrow> flags \<Rightarrow> wallet \<Rightarrow> bytes \<Rightarrow> 64 word \<Rightarrow> 'a \<Rightarrow> ('a, string) step" where
  "depositFor env fl validatorWallet withdrawalCredentials val validatorAccount =
     andThen (errCheck fl (bestPublicKey env validatorAccount)
       ''Validator account does not provide a public key'') (\<lambda>validatorPubKey.
     andThen (outputIf (debug fl)
       (''Deposit data:'' @ [nl, tab] @ ''Public key: '' @ hexEncode (Marshal validatorPubKey)
        @ [nl, tab] @ ''Withdrawal credentials: '' @ hexEncode withdrawalCredentials
        @ [nl, tab] @ ''Value: '' @ decimal (unat val))) (\<lambda>_.
     andThen (forkVersionOf env fl) (\<lambda>forkVersion.
     andThen (outputIf (debug fl) (''Fork version is '' @ hexEncode forkVersion)) (\<lambda>_.
     andThen (outputIf (debug fl) (''Domain is ''
        @ hexEncode (Domain_e2types env (DomainDeposit env) forkVersion ZeroGenesisValidatorsRoot))) (\<lambda>_.
     andThen (callSignStruct env validatorAccount
        (Unsigned \<lparr>PubKey = Marshal validatorPubKey,
           WithdrawalCredentials = withdrawalCredentials, Value = val\<rparr>)
        (Domain_e2types env (DomainDeposit env) forkVersion ZeroGenesisValidatorsRoot)) (\<lambda>signed.
     andThen (errCheck fl signed ''Failed to generate deposit data signature'') (\<lambda>signature.
     andThen (if debug fl
              then printSignedDepositData \<lparr>PubKey = Marshal validatorPubKey,
                     WithdrawalCredentials = withdrawalCredentials, Value = val,
                     Signature = MarshalSignature signature\<rparr>
              else ret ()) (\<lambda>_.
     andThen (errCheck fl
        (HashTreeRoot env (Signed \<lparr>PubKey = Marshal validatorPubKey,
           WithdrawalCredentials = withdrawalCredentials, Value = val,
           Signature = MarshalSignature signature\<rparr>))
        ''Failed to generate deposit data root'') (\<lambda>depositDataRoot.
     andThen (outputIf (debug fl) (''Deposit data root is '' @ hexEncode depositDataRoot)) (\<lambda>_.
     renderOutput env fl validatorWallet validatorAccount
       \<lparr>PubKey = Marshal validatorPubKey, WithdrawalCredentials = withdrawalCredentials,
        Value = val, Signature = MarshalSignature signature\<rparr>
       val depositDataRoot forkVersion))))))))))"

fun depositLoop ::
  "'a env \<Rightarrow> flags \<Rightarrow> wallet \<Rightarrow> bytes \<Rightarrow> 64 word \<Rightarrow> 'a list \<Rightarrow> string list
     \<Rightarrow> ('a, string list) step" where
  "depositLoop env fl validatorWallet withdrawalCredentials val [] outputs = ret outputs"
| "depositLoop env fl validatorWallet withdrawalCredentials val (validatorAccount # rest) outputs =
     andThen (depositFor env fl validatorWallet withdrawalCredentials val validatorAccount) (\<lambda>out.
     depositLoop env fl validatorWallet withdrawalCredentials val rest (outputs @ [out]))"

subsection \<open>Run, lines 201 to 211, and the whole of Run\<close>

definition printOutputs :: "string list \<Rightarrow> ('a, unit) step" where
  "printOutputs outputs =
     (if length outputs = 1 then printStdout (outputs ! 0 @ [nl])
      else
        andThen (printStdout ''['') (\<lambda>_.
        andThen (printStdout (Join outputs '','')) (\<lambda>_.
        printStdout ('']'' @ [nl]))))"

definition Run :: "'a env \<Rightarrow> flags \<Rightarrow> ('a, unit) step" where
  "Run env fl =
     andThen (obtainValidatorAccounts env fl) (\<lambda>(validatorWallet, validatorAccounts).
     andThen (withdrawalCredentialsOf env fl) (\<lambda>withdrawalCredentials.
     andThen (depositValueOf env fl) (\<lambda>val.
     andThen (depositLoop env fl validatorWallet withdrawalCredentials val validatorAccounts []) (\<lambda>outputs.
     andThen (if quiet fl then osExit 0 else ret ()) (\<lambda>_.
     printOutputs outputs)))))"

text \<open>The exit status of the process: the argument of \<^verbatim>\<open>os.Exit\<close>, 2 after a panic (the
  Go runtime's status), 0 when \<^verbatim>\<open>Run\<close> returns.\<close>

fun exitStatus :: "outcome + unit \<Rightarrow> int" where
  "exitStatus (Inl (Exit c)) = c"
| "exitStatus (Inl Panic) = 2"
| "exitStatus (Inr _) = 0"

subsection \<open>Reading a trace\<close>

fun stdoutOf :: "'a trace \<Rightarrow> string" where
  "stdoutOf [] = []"
| "stdoutOf (Stdout m # t) = m @ stdoutOf t"
| "stdoutOf (_ # t) = stdoutOf t"

fun signRequests :: "'a trace \<Rightarrow> ('a \<times> sszStruct \<times> bytes) list" where
  "signRequests [] = []"
| "signRequests (CalledSignStruct a d dm # t) = (a, d, dm) # signRequests t"
| "signRequests (_ # t) = signRequests t"

fun hashedInputs :: "'a trace \<Rightarrow> bytes list" where
  "hashedInputs [] = []"
| "hashedInputs (CalledSHA256 b # t) = b # hashedInputs t"
| "hashedInputs (_ # t) = hashedInputs t"

text \<open>The text of the debug block of lines 148 to 154, as one string.\<close>

definition signedDepositDataText :: "signedDepositData \<Rightarrow> string" where
  "signedDepositDataText sd =
     ''Signed deposit data:'' @ [nl]
     @ '' Public key: '' @ sharpHex (PubKey sd) @ [nl]
     @ '' Withdrawal credentials: '' @ sharpHex (WithdrawalCredentials sd) @ [nl]
     @ '' Value: '' @ decimal (unat (Value sd)) @ [nl]
     @ '' Signature: '' @ sharpHex (Signature sd) @ [nl]"

subsection \<open>The contract call as the specification words it\<close>

text \<open>A 32-byte big-endian word, a value right-padded with zero bytes to a 32-byte
  boundary, and a dynamic \<^verbatim>\<open>bytes\<close> argument: its length word, then the padded value.\<close>

definition abiWord :: "nat \<Rightarrow> bytes" where
  "abiWord n = map (\<lambda>i. word_of_nat (n div 256 ^ (31 - i))) [0..<32]"

definition abiPad :: "bytes \<Rightarrow> bytes" where
  "abiPad v = v @ replicate ((32 - length v mod 32) mod 32) 0"

definition abiBytes :: "bytes \<Rightarrow> bytes" where
  "abiBytes v = abiWord (length v) @ abiPad v"

definition depositSelector :: bytes where
  "depositSelector = [0x22, 0x89, 0x51, 0x18]"

definition abiDepositCall :: "bytes \<Rightarrow> bytes \<Rightarrow> bytes \<Rightarrow> bytes \<Rightarrow> bytes" where
  "abiDepositCall pubkey credentials sig root =
     depositSelector @ abiWord 0x80 @ abiWord 0xe0 @ abiWord 0x120 @ root
     @ abiBytes pubkey @ abiBytes credentials @ abiBytes sig"

text \<open>Reading the call data back at its fixed offsets: the selector takes 4 bytes, every
  pointer counts from the byte after it, and a tail starts with its 32-byte length word.\<close>

definition slice :: "bytes \<Rightarrow> nat \<Rightarrow> nat \<Rightarrow> bytes" where
  "slice b off n = take n (drop off b)"

definition parseDepositDataRoot :: "bytes \<Rightarrow> bytes" where
  "parseDepositDataRoot tx = slice tx (4 + 3 * 32) 32"

definition parsePubKey :: "bytes \<Rightarrow> bytes" where
  "parsePubKey tx = slice tx (4 + 0x80 + 32) 48"

definition parseWithdrawalCredentials :: "bytes \<Rightarrow> bytes" where
  "parseWithdrawalCredentials tx = slice tx (4 + 0xe0 + 32) 32"

definition parseSignature :: "bytes \<Rightarrow> bytes" where
  "parseSignature tx = slice tx (4 + 0x120 + 32) 96"

subsection \<open>A small world to run the command in\<close>

text \<open>Accounts are named by strings; every account has a public key; the account
  \<^verbatim>\<open>locked\<close> refuses to sign; 48 zero bytes are not a public key.\<close>

definition exampleEnv :: "string env" where
  "exampleEnv = \<lparr>
     walletAndAccountsFromPath = (\<lambda>p.
        if p = ''w/v'' then Inr (Wallet ''w'', [''a'', ''b''])
        else if p = ''w/a'' then Inr (Wallet ''w'', [''a''])
        else if p = ''w/x'' then Inr (Wallet ''w'', [''a'', ''locked''])
        else Inl ''no such wallet''),
     walletAndAccountFromPath = (\<lambda>p.
        if p = ''w/c'' then Inr (Wallet ''w'', ''c'') else Inl ''no such account''),
     accountName = (\<lambda>a. a),
     bestPublicKey = (\<lambda>a. Inr (BLSPublicKey [0xAA])),
     BLSPublicKeyFromBytes = (\<lambda>b. if b = replicate 48 0 then Inl ''not a point'' else Inr (BLSPublicKey b)),
     SHA256 = (\<lambda>b. [0xBB, 0xBC]),
     StringToGWei = (\<lambda>s.
        if s = ''32 Ether'' then Inr 32000000000
        else if s = ''1 Ether'' then Inr 1000000000
        else if s = ''0.5 Ether'' then Inr 500000000
        else Inl ''invalid value''),
     connect = (\<lambda>n. None),
     FetchChainConfig = (\<lambda>n. Inr [''GenesisForkVersion'' \<mapsto> BytesValue [0, 0, 0, 1]]),
     DomainDeposit = [3, 0, 0, 0],
     Domain_e2types = (\<lambda>domainType forkVersion root. domainType @ forkVersion),
     signStruct = (\<lambda>a d dm. if a = ''locked'' then Inl ''account is locked'' else Inr (BLSSignature [0xCC])),
     HashTreeRoot = (\<lambda>d. Inr [0xDD]) \<rparr>"

definition exampleFlags :: flags where
  "exampleFlags = \<lparr>
     validatorDepositDataValidatorAccount = ''w/v'',
     validatorDepositDataWithdrawalAccount = ''w/c'',
     validatorDepositDataWithdrawalPubKey = '''',
     validatorDepositDataDepositValue = ''32 Ether'',
     validatorDepositDataRaw = False,
     validatorDepositDataForkVersion = '''',
     validatorDepositDataLaunchpad = False,
     quiet = False, verbose = False, debug = False \<rparr>"

subsection \<open>An object of the default output as the specification words it\<close>

text \<open>Members in order, each a name in double quotes, a colon and a value: a string in
  double quotes or a number in decimal.  Nothing is escaped.\<close>

datatype jsonValue = JString string | JNumber nat

fun renderValue :: "jsonValue \<Rightarrow> string" where
  "renderValue (JString s) = [dq] @ s @ [dq]"
| "renderValue (JNumber n) = decimal n"

definition renderMember :: "string \<times> jsonValue \<Rightarrow> string" where
  "renderMember m = [dq] @ fst m @ [dq] @ '':'' @ renderValue (snd m)"

definition renderObject :: "(string \<times> jsonValue) list \<Rightarrow> string" where
  "renderObject ms = ''{'' @ Join (map renderMember ms) '','' @ ''}''"

section \<open>Properties\<close>

subsection \<open>The raw transaction data\<close>

lemma upt32:
  "[0..<32] = [0, 1, 2, 3, 4, 5, 6, 7, 8, 9, 10, 11, 12, 13, 14, 15, 16, 17, 18, 19, 20, 21,
     22, 23, 24, 25, 26, 27, 28, 29, 30, 31 :: nat]"
  by (simp add: upt_rec)

lemma abiWord_vals:
  "abiWord 0x80 = [0, 0, 0, 0, 0, 0, 0, 0, 0, 0, 0, 0, 0, 0, 0, 0, 0, 0, 0, 0, 0, 0, 0, 0, 0, 0, 0, 0, 0, 0, 0, 0x80]"
  "abiWord 0xe0 = [0, 0, 0, 0, 0, 0, 0, 0, 0, 0, 0, 0, 0, 0, 0, 0, 0, 0, 0, 0, 0, 0, 0, 0, 0, 0, 0, 0, 0, 0, 0, 0xe0]"
  "abiWord 0x120 = [0, 0, 0, 0, 0, 0, 0, 0, 0, 0, 0, 0, 0, 0, 0, 0, 0, 0, 0, 0, 0, 0, 0, 0, 0, 0, 0, 0, 0, 0, 0x01, 0x20]"
  "abiWord 48 = [0, 0, 0, 0, 0, 0, 0, 0, 0, 0, 0, 0, 0, 0, 0, 0, 0, 0, 0, 0, 0, 0, 0, 0, 0, 0, 0, 0, 0, 0, 0, 0x30]"
  "abiWord 32 = [0, 0, 0, 0, 0, 0, 0, 0, 0, 0, 0, 0, 0, 0, 0, 0, 0, 0, 0, 0, 0, 0, 0, 0, 0, 0, 0, 0, 0, 0, 0, 0x20]"
  "abiWord 96 = [0, 0, 0, 0, 0, 0, 0, 0, 0, 0, 0, 0, 0, 0, 0, 0, 0, 0, 0, 0, 0, 0, 0, 0, 0, 0, 0, 0, 0, 0, 0, 0x60]"
  by (simp_all add: abiWord_def upt32)

lemma replicate16: "replicate 16 x = [x, x, x, x, x, x, x, x, x, x, x, x, x, x, x, x]"
  by (simp add: numeral_eq_Suc)

lemma abiPad_vals:
  "length v = 48 \<Longrightarrow> abiPad v = v @ [0, 0, 0, 0, 0, 0, 0, 0, 0, 0, 0, 0, 0, 0, 0, 0]"
  "length v = 32 \<Longrightarrow> abiPad v = v"
  "length v = 96 \<Longrightarrow> abiPad v = v"
  by (simp_all add: abiPad_def replicate16)

text \<open>
  Claim C1.  For a 48-byte public key, 32-byte withdrawal credentials, a 96-byte signature
  and a 32-byte deposit data root, the bytes that raw mode builds are the selector
  0x22895118, the three pointer words 0x80, 0xe0 and 0x120, the root, and for each dynamic
  argument its length word and the value padded to a 32-byte boundary: 420 bytes in all.
  The text printed for the validator is these bytes in hexadecimal after \<^verbatim>\<open>0x\<close>.
\<close>

theorem raw_mode_layout:
  assumes "length pk = 48" and "length wc = 32" and "length sg = 96" and "length root = 32"
  shows "txData root pk wc sg = abiDepositCall pk wc sg root
       \<and> length (txData root pk wc sg) = 420
       \<and> rawOutput root pk wc sg = ''0x'' @ hexEncode (abiDepositCall pk wc sg root)"
proof -
  have layout: "txData root pk wc sg = abiDepositCall pk wc sg root"
    using assms
    by (simp add: txData_def abiDepositCall_def abiBytes_def abiPad_vals depositSelector_def
        abiWord_vals)
  have len: "length (txData root pk wc sg) = 420"
    using assms by (simp add: txData_def)
  have "txData root pk wc sg \<noteq> []"
    by (simp add: txData_def)
  then have "rawOutput root pk wc sg = ''0x'' @ hexEncode (txData root pk wc sg)"
    by (simp add: rawOutput_def sharpHex_def)
  with layout len show ?thesis by simp
qed

theorem raw_mode_layout_witness:
  "txData (replicate 32 4) (replicate 48 1) (replicate 32 2) (replicate 96 3)
     = abiDepositCall (replicate 48 1) (replicate 32 2) (replicate 96 3) (replicate 32 4)
   \<and> length (txData (replicate 32 4) (replicate 48 1) (replicate 32 2) (replicate 96 3)) = 420
   \<and> rawOutput (replicate 32 4) (replicate 48 1) (replicate 32 2) (replicate 96 3)
     = ''0x'' @ hexEncode (abiDepositCall (replicate 48 1) (replicate 32 2) (replicate 96 3) (replicate 32 4))"
  by (rule raw_mode_layout; simp)

text \<open>
  Claim C4.  Reading the raw transaction data back at its fixed offsets gives the public
  key, the withdrawal credentials, the signature and the deposit data root that were
  encoded.
\<close>

theorem raw_mode_round_trip:
  assumes "length pk = 48" and "length wc = 32" and "length sg = 96" and "length root = 32"
  shows "parsePubKey (txData root pk wc sg) = pk
       \<and> parseWithdrawalCredentials (txData root pk wc sg) = wc
       \<and> parseSignature (txData root pk wc sg) = sg
       \<and> parseDepositDataRoot (txData root pk wc sg) = root"
  using assms
  by (simp add: txData_def parsePubKey_def parseWithdrawalCredentials_def parseSignature_def
      parseDepositDataRoot_def slice_def)

theorem raw_mode_round_trip_witness:
  "parsePubKey (txData (replicate 32 4) (replicate 48 1) (replicate 32 2) (replicate 96 3))
     = replicate 48 1
   \<and> parseWithdrawalCredentials (txData (replicate 32 4) (replicate 48 1) (replicate 32 2) (replicate 96 3))
     = replicate 32 2
   \<and> parseSignature (txData (replicate 32 4) (replicate 48 1) (replicate 32 2) (replicate 96 3))
     = replicate 96 3
   \<and> parseDepositDataRoot (txData (replicate 32 4) (replicate 48 1) (replicate 32 2) (replicate 96 3))
     = replicate 32 4"
  by (rule raw_mode_round_trip; simp)

subsection \<open>Steps, stages and the loop\<close>


lemma andThen_Inr:
  "andThen m k t = (Inr y, t') \<longleftrightarrow> (\<exists>x t1. m t = (Inr x, t1) \<and> k x t1 = (Inr y, t'))"
  by (auto simp: andThen_def split: prod.splits sum.splits)

lemma andThen_Inl:
  "andThen m k t = (Inl h, t') \<longleftrightarrow>
     m t = (Inl h, t') \<or> (\<exists>x t1. m t = (Inr x, t1) \<and> k x t1 = (Inl h, t'))"
  by (auto simp: andThen_def split: prod.splits sum.splits)

lemmas step_defs = andThen_def ret_def emit_def osExit_def panic_def die_def assert_def
  errCheck_def outputIf_def printStdout_def callSHA256_def callConnect_def
  callFetchChainConfig_def callSignStruct_def

text \<open>What a trace shows of two traces put together.\<close>

lemma stdoutOf_append [simp]: "stdoutOf (t @ u) = stdoutOf t @ stdoutOf u"
  by (induction t rule: stdoutOf.induct) auto

lemma signRequests_append [simp]: "signRequests (t @ u) = signRequests t @ signRequests u"
  by (induction t rule: signRequests.induct) auto

lemma hashedInputs_append [simp]: "hashedInputs (t @ u) = hashedInputs t @ hashedInputs u"
  by (induction t rule: hashedInputs.induct) auto

text \<open>The deposit value and the withdrawal credentials.\<close>

lemma depositValueOf_Inr:
  "depositValueOf env fl t = (Inr v, t') \<longleftrightarrow>
     validatorDepositDataDepositValue fl \<noteq> [] \<and>
     StringToGWei env (validatorDepositDataDepositValue fl) = Inr v \<and> v \<ge> 1000000000 \<and> t' = t"
  by (auto simp: depositValueOf_def step_defs split: sum.splits if_splits)

lemma depositValueOf_Inl:
  "depositValueOf env fl t = (Inl h, t') \<Longrightarrow>
     h = Exit exitFailure \<and> signRequests t' = signRequests t \<and> stdoutOf t' = stdoutOf t
     \<and> hashedInputs t' = hashedInputs t"
  by (auto simp: depositValueOf_def step_defs split: sum.splits if_splits)

lemma withdrawalCredentialsOf_Inl:
  "withdrawalCredentialsOf env fl t = (Inl h, t') \<Longrightarrow>
     (h = Exit exitFailure \<or> h = Panic) \<and> signRequests t' = signRequests t \<and> stdoutOf t' = stdoutOf t"
  by (auto simp: withdrawalCredentialsOf_def step_defs split: sum.splits if_splits prod.splits)

lemma withdrawalCredentialsOf_Inr:
  "withdrawalCredentialsOf env fl t = (Inr wc, t') \<Longrightarrow>
     wc \<noteq> [] \<and> signRequests t' = signRequests t \<and> stdoutOf t' = stdoutOf t
     \<and> (\<exists>pk. hashedInputs t' = hashedInputs t @ [Marshal pk] \<and> wc = (SHA256 env (Marshal pk))[0 := 0])"
  by (auto simp: withdrawalCredentialsOf_def step_defs split: sum.splits if_splits prod.splits)


text \<open>The validator accounts.\<close>

lemma announceAccounts_any:
  "announceAccounts env fl w accts t = (r, t') \<Longrightarrow>
     signRequests t' = signRequests t \<and> stdoutOf t' = stdoutOf t \<and> hashedInputs t' = hashedInputs t
     \<and> count_list t' CalledFetchChainConfig = count_list t CalledFetchChainConfig
     \<and> count_list t' CalledConnect = count_list t CalledConnect
     \<and> (\<forall>h. r = Inl h \<longrightarrow> h = Exit exitFailure)"
proof (induction accts arbitrary: t)
  case Nil
  then show ?case by (auto simp: step_defs)
next
  case (Cons a accts)
  show ?case
  proof (cases "bestPublicKey env a")
    case (Inl e)
    with Cons.prems show ?thesis
      by (auto simp: step_defs split: if_splits)
  next
    case (Inr pk)
    with Cons.prems have
      "announceAccounts env fl w accts
         ((if verbose fl then t @ [OutputIf (''Creating deposit for '' @ Name w @ ''/'' @ accountName env a)] else t)
          @ (if debug fl then [OutputIf (''Validator public key is '' @ sharpHex (Marshal pk))] else [])) = (r, t')"
      by (auto simp: step_defs split: if_splits)
    from Cons.IH [OF this] show ?thesis by (auto split: if_splits)
  qed
qed

lemma obtainValidatorAccounts_any:
  "obtainValidatorAccounts env fl t = (r, t') \<Longrightarrow>
     signRequests t' = signRequests t \<and> stdoutOf t' = stdoutOf t \<and> hashedInputs t' = hashedInputs t
     \<and> count_list t' CalledFetchChainConfig = count_list t CalledFetchChainConfig
     \<and> count_list t' CalledConnect = count_list t CalledConnect
     \<and> (\<forall>h. r = Inl h \<longrightarrow> h = Exit exitFailure)
     \<and> (\<forall>w accts. r = Inr (w, accts) \<longrightarrow>
           walletAndAccountsFromPath env (validatorDepositDataValidatorAccount fl) = Inr (w, accts)
           \<and> accts \<noteq> [])"
  apply (simp add: obtainValidatorAccounts_def andThen_def assert_def die_def errCheck_def ret_def
      emit_def osExit_def split: if_splits sum.splits prod.splits)
  by (auto dest!: announceAccounts_any)


lemma ret_Inr: "ret x t = (Inr y, t') \<longleftrightarrow> y = x \<and> t' = t"
  by (auto simp: ret_def)

lemma emit_Inr: "emit e t = (Inr u, t') \<longleftrightarrow> t' = t @ [e]"
  by (auto simp: emit_def)

lemma printStdout_Inr: "printStdout m t = (Inr u, t') \<longleftrightarrow> t' = t @ [Stdout m]"
  by (auto simp: printStdout_def emit_def)

lemma outputIf_Inr: "outputIf c m t = (Inr u, t') \<longleftrightarrow> t' = (if c then t @ [OutputIf m] else t)"
  by (auto simp: outputIf_def emit_def ret_def)

lemma osExit_Inr: "osExit c t = (Inr y, t') \<longleftrightarrow> False"
  by (auto simp: osExit_def)

lemma panic_Inr: "panic t = (Inr y, t') \<longleftrightarrow> False"
  by (auto simp: panic_def)

lemma die_Inr: "die fl m t = (Inr y, t') \<longleftrightarrow> False"
  by (auto simp: step_defs)

lemma assert_Inr: "assert fl c m t = (Inr u, t') \<longleftrightarrow> c \<and> t' = t"
  by (auto simp: step_defs)

lemma errCheck_Inr: "errCheck fl x m t = (Inr v, t') \<longleftrightarrow> x = Inr v \<and> t' = t"
  by (auto simp: step_defs split: sum.splits)

lemma callSHA256_Inr:
  "callSHA256 env b t = (Inr d, t') \<longleftrightarrow> d = SHA256 env b \<and> t' = t @ [CalledSHA256 b]"
  by (auto simp: step_defs)

lemma callConnect_Inr:
  "callConnect env t = (Inr r, t') \<longleftrightarrow>
     r = connect env (count_list t CalledConnect) \<and> t' = t @ [CalledConnect]"
  by (auto simp: step_defs)

lemma callFetchChainConfig_Inr:
  "callFetchChainConfig env t = (Inr r, t') \<longleftrightarrow>
     r = FetchChainConfig env (count_list t CalledFetchChainConfig) \<and> t' = t @ [CalledFetchChainConfig]"
  by (auto simp: step_defs)

lemma callSignStruct_Inr:
  "callSignStruct env a d dm t = (Inr r, t') \<longleftrightarrow>
     r = signStruct env a d dm \<and> t' = t @ [CalledSignStruct a d dm]"
  by (auto simp: step_defs)

lemmas Inr_simps = andThen_Inr ret_Inr emit_Inr printStdout_Inr outputIf_Inr osExit_Inr panic_Inr
  die_Inr assert_Inr errCheck_Inr callSHA256_Inr callConnect_Inr callFetchChainConfig_Inr
  callSignStruct_Inr

lemma printSignedDepositData_eq:
  "printSignedDepositData sd t = (r, t') \<Longrightarrow>
     r = Inr () \<and> stdoutOf t' = stdoutOf t @ signedDepositDataText sd
     \<and> signRequests t' = signRequests t \<and> hashedInputs t' = hashedInputs t
     \<and> count_list t' CalledFetchChainConfig = count_list t CalledFetchChainConfig
     \<and> count_list t' CalledConnect = count_list t CalledConnect"
  by (auto simp: printSignedDepositData_def signedDepositDataText_def step_defs)

lemma forkVersionOf_Inr:
  "forkVersionOf env fl t = (Inr fv, t') \<Longrightarrow>
     signRequests t' = signRequests t \<and> stdoutOf t' = stdoutOf t \<and> hashedInputs t' = hashedInputs t
     \<and> (if validatorDepositDataForkVersion fl \<noteq> []
         then DecodeString (TrimPrefix (validatorDepositDataForkVersion fl) ''0x'') = Inr fv
              \<and> length fv = 4
              \<and> count_list t' CalledFetchChainConfig = count_list t CalledFetchChainConfig
              \<and> count_list t' CalledConnect = count_list t CalledConnect
         else connect env (count_list t CalledConnect) = None
              \<and> (\<exists>config. FetchChainConfig env (count_list t CalledFetchChainConfig) = Inr config
                     \<and> config ''GenesisForkVersion'' = Some (BytesValue fv))
              \<and> count_list t' CalledFetchChainConfig = Suc (count_list t CalledFetchChainConfig)
              \<and> count_list t' CalledConnect = Suc (count_list t CalledConnect))"
  by (auto simp: forkVersionOf_def Inr_simps
      split: if_splits sum.splits option.splits configValue.splits)


lemma renderOutput_Inr:
  "renderOutput env fl w a sd val root fv t = (Inr out, t') \<Longrightarrow>
     t' = t \<and>
     (if validatorDepositDataRaw fl
      then out = rawOutput root (PubKey sd) (WithdrawalCredentials sd) (Signature sd)
      else if validatorDepositDataLaunchpad fl
      then \<exists>mroot. HashTreeRoot env (Unsigned \<lparr>PubKey = PubKey sd,
                 WithdrawalCredentials = WithdrawalCredentials sd, Value = val\<rparr>) = Inr mroot
             \<and> out = launchpadOutput sd val mroot root fv
      else out = defaultOutput (Name w) (accountName env a) sd val root)"
  by (auto simp: renderOutput_def Inr_simps split: if_splits)

lemma depositFor_Inr:
  assumes "depositFor env fl w wc val a t = (Inr out, t')"
  shows "\<exists>pk fv sg root.
     bestPublicKey env a = Inr pk
     \<and> (if validatorDepositDataForkVersion fl \<noteq> []
         then DecodeString (TrimPrefix (validatorDepositDataForkVersion fl) ''0x'') = Inr fv
              \<and> length fv = 4
              \<and> count_list t' CalledFetchChainConfig = count_list t CalledFetchChainConfig
              \<and> count_list t' CalledConnect = count_list t CalledConnect
         else connect env (count_list t CalledConnect) = None
              \<and> (\<exists>config. FetchChainConfig env (count_list t CalledFetchChainConfig) = Inr config
                     \<and> config ''GenesisForkVersion'' = Some (BytesValue fv))
              \<and> count_list t' CalledFetchChainConfig = Suc (count_list t CalledFetchChainConfig)
              \<and> count_list t' CalledConnect = Suc (count_list t CalledConnect))
     \<and> signStruct env a (Unsigned \<lparr>PubKey = Marshal pk, WithdrawalCredentials = wc, Value = val\<rparr>)
          (Domain_e2types env (DomainDeposit env) fv ZeroGenesisValidatorsRoot) = Inr sg
     \<and> HashTreeRoot env (Signed \<lparr>PubKey = Marshal pk, WithdrawalCredentials = wc, Value = val,
          Signature = MarshalSignature sg\<rparr>) = Inr root
     \<and> signRequests t' = signRequests t @
          [(a, Unsigned \<lparr>PubKey = Marshal pk, WithdrawalCredentials = wc, Value = val\<rparr>,
            Domain_e2types env (DomainDeposit env) fv ZeroGenesisValidatorsRoot)]
     \<and> hashedInputs t' = hashedInputs t
     \<and> stdoutOf t' = stdoutOf t @
          (if debug fl
           then signedDepositDataText \<lparr>PubKey = Marshal pk, WithdrawalCredentials = wc, Value = val,
                  Signature = MarshalSignature sg\<rparr>
           else [])
     \<and> (if validatorDepositDataRaw fl
         then out = rawOutput root (Marshal pk) wc (MarshalSignature sg)
         else if validatorDepositDataLaunchpad fl
         then \<exists>mroot. HashTreeRoot env (Unsigned \<lparr>PubKey = Marshal pk,
                    WithdrawalCredentials = wc, Value = val\<rparr>) = Inr mroot
                \<and> out = launchpadOutput \<lparr>PubKey = Marshal pk, WithdrawalCredentials = wc,
                    Value = val, Signature = MarshalSignature sg\<rparr> val mroot root fv
         else out = defaultOutput (Name w) (accountName env a)
                \<lparr>PubKey = Marshal pk, WithdrawalCredentials = wc, Value = val,
                 Signature = MarshalSignature sg\<rparr> val root)"
  using assms unfolding depositFor_def
  apply (cases "debug fl")
   apply (clarsimp simp: Inr_simps)
   apply (frule forkVersionOf_Inr)
   apply (frule renderOutput_Inr)
   apply (frule printSignedDepositData_eq)
   apply (auto split: if_splits)[1]
  apply (clarsimp simp: Inr_simps)
  apply (frule forkVersionOf_Inr)
  apply (frule renderOutput_Inr)
  apply (auto split: if_splits)[1]
  done


lemmas prim_defs = ret_def emit_def osExit_def panic_def die_def assert_def
  errCheck_def outputIf_def printStdout_def callSHA256_def callConnect_def
  callFetchChainConfig_def callSignStruct_def

lemma forkVersionOf_any:
  "forkVersionOf env fl t = (r, t') \<Longrightarrow>
     signRequests t' = signRequests t \<and> stdoutOf t' = stdoutOf t \<and> hashedInputs t' = hashedInputs t
     \<and> (\<forall>h. r = Inl h \<longrightarrow> h = Exit exitFailure \<or> h = Panic)"
  by (auto simp: forkVersionOf_def step_defs
      split: if_splits sum.splits option.splits configValue.splits)

lemma forkVersionOf_bad:
  assumes "forkVersionOf env fl t = (r, t')"
    and "if validatorDepositDataForkVersion fl \<noteq> []
         then \<forall>fv. DecodeString (TrimPrefix (validatorDepositDataForkVersion fl) ''0x'') = Inr fv
                \<longrightarrow> length fv \<noteq> 4
         else (case FetchChainConfig env (count_list t CalledFetchChainConfig) of
                 Inl e \<Rightarrow> True | Inr config \<Rightarrow> config ''GenesisForkVersion'' = None)"
  shows "r = Inl (Exit exitFailure)"
  using assms
  by (auto simp: forkVersionOf_def step_defs
      split: if_splits sum.splits option.splits configValue.splits)

lemma renderOutput_any:
  "renderOutput env fl w a sd val root fv t = (r, t') \<Longrightarrow>
     signRequests t' = signRequests t \<and> stdoutOf t' = stdoutOf t \<and> hashedInputs t' = hashedInputs t
     \<and> (\<forall>h. r = Inl h \<longrightarrow> h = Exit exitFailure)"
  by (auto simp: renderOutput_def step_defs split: if_splits sum.splits)

lemma depositFor_any:
  assumes "depositFor env fl w wc val a t = (r, t')"
  shows "hashedInputs t' = hashedInputs t
     \<and> (stdoutOf t' = stdoutOf t \<or> (debug fl \<and> (\<exists>sd. stdoutOf t' = stdoutOf t @ signedDepositDataText sd)))
     \<and> (\<forall>h. r = Inl h \<longrightarrow> h = Exit exitFailure \<or> h = Panic)"
  using assms unfolding depositFor_def
  apply (simp add: andThen_def prim_defs split: sum.splits prod.splits if_splits)
  by (auto dest!: forkVersionOf_any renderOutput_any printSignedDepositData_eq)

lemma depositFor_bad_fork:
  assumes "depositFor env fl w wc val a t = (r, t')"
    and "if validatorDepositDataForkVersion fl \<noteq> []
         then \<forall>fv. DecodeString (TrimPrefix (validatorDepositDataForkVersion fl) ''0x'') = Inr fv
                \<longrightarrow> length fv \<noteq> 4
         else (case FetchChainConfig env (count_list t CalledFetchChainConfig) of
                 Inl e \<Rightarrow> True | Inr config \<Rightarrow> config ''GenesisForkVersion'' = None)"
  shows "r = Inl (Exit exitFailure) \<and> signRequests t' = signRequests t \<and> stdoutOf t' = stdoutOf t
     \<and> hashedInputs t' = hashedInputs t"
proof (cases "bestPublicKey env a")
  case (Inl e)
  with assms(1) show ?thesis
    by (auto simp: depositFor_def andThen_def prim_defs split: if_splits)
next
  case (Inr pk)
  define t1 where "t1 = (if debug fl then t @ [OutputIf (''Deposit data:'' @ [nl, tab] @ ''Public key: '' @ hexEncode (Marshal pk)
        @ [nl, tab] @ ''Withdrawal credentials: '' @ hexEncode wc
        @ [nl, tab] @ ''Value: '' @ decimal (unat val))] else t)"
  obtain r1 t2 where fv: "forkVersionOf env fl t1 = (r1, t2)"
    by (cases "forkVersionOf env fl t1") auto
  have cnt: "count_list t1 CalledFetchChainConfig = count_list t CalledFetchChainConfig"
    by (simp add: t1_def)
  from forkVersionOf_bad [OF fv] assms(2) cnt have r1: "r1 = Inl (Exit exitFailure)"
    by simp
  from forkVersionOf_any [OF fv] have t2: "signRequests t2 = signRequests t1"
    "stdoutOf t2 = stdoutOf t1" "hashedInputs t2 = hashedInputs t1"
    by simp_all
  from assms(1) Inr fv r1 have "r = Inl (Exit exitFailure) \<and> t' = t2"
    by (auto simp: depositFor_def andThen_def prim_defs t1_def split: if_splits)
  with t2 show ?thesis by (simp add: t1_def)
qed


lemma depositLoop_any:
  "depositLoop env fl w wc val accts outs t = (r, t') \<Longrightarrow>
     hashedInputs t' = hashedInputs t
     \<and> (\<exists>sds. stdoutOf t' = stdoutOf t @ concat (map signedDepositDataText sds)
            \<and> (\<not> debug fl \<longrightarrow> sds = []))
     \<and> (\<forall>h. r = Inl h \<longrightarrow> h = Exit exitFailure \<or> h = Panic)"
proof (induction accts arbitrary: outs t)
  case Nil
  then show ?case by (auto simp: ret_def intro: exI [of _ "[]"])
next
  case (Cons a accts)
  obtain r1 t1 where b: "depositFor env fl w wc val a t = (r1, t1)"
    by (cases "depositFor env fl w wc val a t") auto
  note B = depositFor_any [OF b]
  from B obtain sds0 where s0: "stdoutOf t1 = stdoutOf t @ concat (map signedDepositDataText sds0)"
    "\<not> debug fl \<longrightarrow> sds0 = []"
  proof -
    from B consider "stdoutOf t1 = stdoutOf t"
      | sd where "debug fl" "stdoutOf t1 = stdoutOf t @ signedDepositDataText sd"
      by blast
    then show ?thesis
    proof cases
      case 1
      then show ?thesis using that [of "[]"] by simp
    next
      case (2 sd)
      then show ?thesis using that [of "[sd]"] by simp
    qed
  qed
  show ?case
  proof (cases r1)
    case (Inl h)
    with Cons.prems b have "r = Inl h" "t' = t1"
      by (auto simp: andThen_def)
    with B Inl s0 show ?thesis by auto
  next
    case (Inr out)
    with Cons.prems b have "depositLoop env fl w wc val accts (outs @ [out]) t1 = (r, t')"
      by (auto simp: andThen_def)
    from Cons.IH [OF this] obtain sds where
      I: "hashedInputs t' = hashedInputs t1"
        "stdoutOf t' = stdoutOf t1 @ concat (map signedDepositDataText sds)"
        "\<not> debug fl \<longrightarrow> sds = []"
        "\<forall>h. r = Inl h \<longrightarrow> h = Exit exitFailure \<or> h = Panic"
      by blast
    from I s0 B have "stdoutOf t' = stdoutOf t @ concat (map signedDepositDataText (sds0 @ sds))
      \<and> (\<not> debug fl \<longrightarrow> sds0 @ sds = [])"
      by auto
    then have "\<exists>sds. stdoutOf t' = stdoutOf t @ concat (map signedDepositDataText sds)
            \<and> (\<not> debug fl \<longrightarrow> sds = [])"
      by (rule exI)
    with I B show ?thesis by simp
  qed
qed

lemma depositLoop_bad_fork:
  assumes "depositLoop env fl w wc val accts outs t = (r, t')"
    and "accts \<noteq> []"
    and "if validatorDepositDataForkVersion fl \<noteq> []
         then \<forall>fv. DecodeString (TrimPrefix (validatorDepositDataForkVersion fl) ''0x'') = Inr fv
                \<longrightarrow> length fv \<noteq> 4
         else (case FetchChainConfig env (count_list t CalledFetchChainConfig) of
                 Inl e \<Rightarrow> True | Inr config \<Rightarrow> config ''GenesisForkVersion'' = None)"
  shows "r = Inl (Exit exitFailure) \<and> signRequests t' = signRequests t \<and> stdoutOf t' = stdoutOf t
     \<and> hashedInputs t' = hashedInputs t"
proof -
  from assms(2) obtain a rest where accts: "accts = a # rest"
    by (cases accts) auto
  obtain r1 t1 where b: "depositFor env fl w wc val a t = (r1, t1)"
    by (cases "depositFor env fl w wc val a t") auto
  note B = depositFor_bad_fork [OF b assms(3)]
  with assms(1) accts b have "r = Inl (Exit exitFailure)" "t' = t1"
    by (auto simp: andThen_def)
  with B show ?thesis by simp
qed

lemma depositLoop_Inr:
  "depositLoop env fl w wc val accts outs t = (Inr outs', t') \<Longrightarrow>
     \<exists>rs srs.
       outs' = outs @ rs
       \<and> list_all2 (\<lambda>a out. \<exists>u u'. depositFor env fl w wc val a u = (Inr out, u')) accts rs
       \<and> signRequests t' = signRequests t @ srs
       \<and> list_all2 (\<lambda>a q. \<exists>pk fv. q = (a, Unsigned \<lparr>PubKey = Marshal pk,
                WithdrawalCredentials = wc, Value = val\<rparr>,
                Domain_e2types env (DomainDeposit env) fv ZeroGenesisValidatorsRoot)
              \<and> bestPublicKey env a = Inr pk
              \<and> (validatorDepositDataForkVersion fl \<noteq> [] \<longrightarrow>
                   DecodeString (TrimPrefix (validatorDepositDataForkVersion fl) ''0x'') = Inr fv))
            accts srs
       \<and> count_list t' CalledFetchChainConfig = count_list t CalledFetchChainConfig
            + (if validatorDepositDataForkVersion fl \<noteq> [] then 0 else length accts)
       \<and> count_list t' CalledConnect = count_list t CalledConnect
            + (if validatorDepositDataForkVersion fl \<noteq> [] then 0 else length accts)"
proof (induction accts arbitrary: outs t)
  case Nil
  then show ?case by (auto simp: ret_def)
next
  case (Cons a accts)
  from Cons.prems obtain out t1 where
    b: "depositFor env fl w wc val a t = (Inr out, t1)"
    and l: "depositLoop env fl w wc val accts (outs @ [out]) t1 = (Inr outs', t')"
    by (auto simp: andThen_Inr)
  from depositFor_Inr [OF b] obtain pk fv where
    B: "bestPublicKey env a = Inr pk"
      "signRequests t1 = signRequests t @
          [(a, Unsigned \<lparr>PubKey = Marshal pk, WithdrawalCredentials = wc, Value = val\<rparr>,
            Domain_e2types env (DomainDeposit env) fv ZeroGenesisValidatorsRoot)]"
      "validatorDepositDataForkVersion fl \<noteq> [] \<longrightarrow>
         DecodeString (TrimPrefix (validatorDepositDataForkVersion fl) ''0x'') = Inr fv"
      "count_list t1 CalledFetchChainConfig = count_list t CalledFetchChainConfig
            + (if validatorDepositDataForkVersion fl \<noteq> [] then 0 else 1)"
      "count_list t1 CalledConnect = count_list t CalledConnect
            + (if validatorDepositDataForkVersion fl \<noteq> [] then 0 else 1)"
    by (auto split: if_splits)
  from Cons.IH [OF l] obtain rs srs where
    I: "outs' = (outs @ [out]) @ rs"
      "list_all2 (\<lambda>a out. \<exists>u u'. depositFor env fl w wc val a u = (Inr out, u')) accts rs"
      "signRequests t' = signRequests t1 @ srs"
      "list_all2 (\<lambda>a q. \<exists>pk fv. q = (a, Unsigned \<lparr>PubKey = Marshal pk,
                WithdrawalCredentials = wc, Value = val\<rparr>,
                Domain_e2types env (DomainDeposit env) fv ZeroGenesisValidatorsRoot)
              \<and> bestPublicKey env a = Inr pk
              \<and> (validatorDepositDataForkVersion fl \<noteq> [] \<longrightarrow>
                   DecodeString (TrimPrefix (validatorDepositDataForkVersion fl) ''0x'') = Inr fv))
            accts srs"
      "count_list t' CalledFetchChainConfig = count_list t1 CalledFetchChainConfig
            + (if validatorDepositDataForkVersion fl \<noteq> [] then 0 else length accts)"
      "count_list t' CalledConnect = count_list t1 CalledConnect
            + (if validatorDepositDataForkVersion fl \<noteq> [] then 0 else length accts)"
    by blast
  show ?case
    apply (rule exI [of _ "out # rs"])
    apply (rule exI [of _ "(a, Unsigned \<lparr>PubKey = Marshal pk, WithdrawalCredentials = wc, Value = val\<rparr>,
            Domain_e2types env (DomainDeposit env) fv ZeroGenesisValidatorsRoot) # srs"])
    using b B I by auto
qed

lemma withdrawalCredentialsOf_any:
  "withdrawalCredentialsOf env fl t = (r, t') \<Longrightarrow>
     signRequests t' = signRequests t \<and> stdoutOf t' = stdoutOf t
     \<and> count_list t' CalledFetchChainConfig = count_list t CalledFetchChainConfig
     \<and> count_list t' CalledConnect = count_list t CalledConnect
     \<and> (\<forall>h. r = Inl h \<longrightarrow> h = Exit exitFailure \<or> h = Panic)"
  by (auto simp: withdrawalCredentialsOf_def step_defs split: sum.splits if_splits prod.splits)

lemma depositValueOf_any:
  "depositValueOf env fl t = (r, t') \<Longrightarrow>
     signRequests t' = signRequests t \<and> stdoutOf t' = stdoutOf t \<and> hashedInputs t' = hashedInputs t
     \<and> count_list t' CalledFetchChainConfig = count_list t CalledFetchChainConfig
     \<and> count_list t' CalledConnect = count_list t CalledConnect
     \<and> (\<forall>h. r = Inl h \<longrightarrow> h = Exit exitFailure)"
  by (auto simp: depositValueOf_def step_defs split: sum.splits if_splits)

lemma announceAccounts_Inr:
  "announceAccounts env fl w accts t = (Inr u, t') \<Longrightarrow>
     \<forall>a \<in> set accts. \<exists>pk. bestPublicKey env a = Inr pk"
proof (induction accts arbitrary: t)
  case Nil
  then show ?case by simp
next
  case (Cons a accts)
  from Cons.prems obtain pk t1 where
    "bestPublicKey env a = Inr pk" "announceAccounts env fl w accts t1 = (Inr u, t')"
    by (auto simp: Inr_simps)
  with Cons.IH show ?case by auto
qed

lemma obtainValidatorAccounts_Inr:
  "obtainValidatorAccounts env fl t = (Inr (w, accts), t') \<Longrightarrow>
     \<forall>a \<in> set accts. \<exists>pk. bestPublicKey env a = Inr pk"
  by (auto simp: obtainValidatorAccounts_def Inr_simps dest!: announceAccounts_Inr)

lemma printOutputs_eq:
  "printOutputs outs t = (r, t') \<Longrightarrow>
     r = Inr () \<and> signRequests t' = signRequests t \<and> hashedInputs t' = hashedInputs t
     \<and> count_list t' CalledFetchChainConfig = count_list t CalledFetchChainConfig
     \<and> count_list t' CalledConnect = count_list t CalledConnect
     \<and> stdoutOf t' = stdoutOf t @
          (if length outs = 1 then outs ! 0 @ [nl] else ''['' @ Join outs '','' @ '']'' @ [nl])"
  by (auto simp: printOutputs_def step_defs split: if_splits)

lemma Run_outcome:
  assumes "Run env fl t0 = (r, t)"
  obtains
    (accounts) h where "obtainValidatorAccounts env fl t0 = (Inl h, t)" "r = Inl h"
  | (credentials) w accts t1 h where
      "obtainValidatorAccounts env fl t0 = (Inr (w, accts), t1)"
      "withdrawalCredentialsOf env fl t1 = (Inl h, t)" "r = Inl h"
  | (amount) w accts t1 wc t2 h where
      "obtainValidatorAccounts env fl t0 = (Inr (w, accts), t1)"
      "withdrawalCredentialsOf env fl t1 = (Inr wc, t2)"
      "depositValueOf env fl t2 = (Inl h, t)" "r = Inl h"
  | (loop) w accts t1 wc t2 val h where
      "obtainValidatorAccounts env fl t0 = (Inr (w, accts), t1)"
      "withdrawalCredentialsOf env fl t1 = (Inr wc, t2)"
      "depositValueOf env fl t2 = (Inr val, t2)"
      "depositLoop env fl w wc val accts [] t2 = (Inl h, t)" "r = Inl h"
  | (silent) w accts t1 wc t2 val outs where
      "obtainValidatorAccounts env fl t0 = (Inr (w, accts), t1)"
      "withdrawalCredentialsOf env fl t1 = (Inr wc, t2)"
      "depositValueOf env fl t2 = (Inr val, t2)"
      "depositLoop env fl w wc val accts [] t2 = (Inr outs, t)" "quiet fl" "r = Inl (Exit 0)"
  | (printed) w accts t1 wc t2 val outs t3 where
      "obtainValidatorAccounts env fl t0 = (Inr (w, accts), t1)"
      "withdrawalCredentialsOf env fl t1 = (Inr wc, t2)"
      "depositValueOf env fl t2 = (Inr val, t2)"
      "depositLoop env fl w wc val accts [] t2 = (Inr outs, t3)" "\<not> quiet fl"
      "printOutputs outs t3 = (r, t)" "r = Inr ()"
proof (cases "obtainValidatorAccounts env fl t0")
  case (Pair ra t1)
  show ?thesis
  proof (cases ra)
    case (Inl h)
    with Pair assms show ?thesis
      by (intro accounts [of h]) (auto simp: Run_def andThen_def)
  next
    case (Inr wa)
    obtain w accts where wa: "wa = (w, accts)" by (cases wa)
    note A = Pair [unfolded Inr wa]
    show ?thesis
    proof (cases "withdrawalCredentialsOf env fl t1")
      case (Pair rb t2)
      note B0 = Pair
      show ?thesis
      proof (cases rb)
        case (Inl h)
        with A B0 assms show ?thesis
          by (intro credentials [of w accts t1 h]) (auto simp: Run_def andThen_def)
      next
        case (Inr wc)
        note B = B0 [unfolded Inr]
        show ?thesis
        proof (cases "depositValueOf env fl t2")
          case (Pair rc t3)
          note C0 = Pair
          show ?thesis
          proof (cases rc)
            case (Inl h)
            with A B C0 assms show ?thesis
              by (intro amount [of w accts t1 wc t2 h]) (auto simp: Run_def andThen_def)
          next
            case (Inr val)
            with C0 have t3: "t3 = t2" by (simp add: depositValueOf_Inr)
            note C = C0 [unfolded Inr t3]
            show ?thesis
            proof (cases "depositLoop env fl w wc val accts [] t2")
              case (Pair rd t4)
              note D0 = Pair
              show ?thesis
              proof (cases rd)
                case (Inl h)
                with A B C D0 assms show ?thesis
                  by (intro loop [of w accts t1 wc t2 val h]) (auto simp: Run_def andThen_def)
              next
                case (Inr outs)
                note D = D0 [unfolded Inr]
                show ?thesis
                proof (cases "quiet fl")
                  case True
                  with A B C D assms show ?thesis
                    by (intro silent [of w accts t1 wc t2 val outs])
                       (auto simp: Run_def andThen_def osExit_def)
                next
                  case False
                  with A B C D assms have P: "printOutputs outs t4 = (r, t)"
                    by (auto simp: Run_def andThen_def ret_def)
                  from printOutputs_eq [OF P] have "r = Inr ()" by simp
                  with False A B C D P show ?thesis
                    by (intro printed [of w accts t1 wc t2 val outs t4]) auto
                qed
              qed
            qed
          qed
        qed
      qed
    qed
  qed
qed

lemma forkVersionOf_succeeds:
  assumes "if validatorDepositDataForkVersion fl \<noteq> []
       then \<exists>fv. DecodeString (TrimPrefix (validatorDepositDataForkVersion fl) ''0x'') = Inr fv
              \<and> length fv = 4
       else \<forall>n. connect env n = None
              \<and> (\<exists>config fv. FetchChainConfig env n = Inr config
                    \<and> config ''GenesisForkVersion'' = Some (BytesValue fv))"
  shows "\<exists>fv t'. forkVersionOf env fl t = (Inr fv, t')"
proof (cases "validatorDepositDataForkVersion fl \<noteq> []")
  case True
  with assms show ?thesis
    by (auto simp: forkVersionOf_def step_defs)
next
  case False
  with assms obtain config fv where
    "connect env (count_list t CalledConnect) = None"
    "FetchChainConfig env (count_list (t @ [CalledConnect]) CalledFetchChainConfig) = Inr config"
    "config ''GenesisForkVersion'' = Some (BytesValue fv)"
    by (metis (full_types))
  with False show ?thesis
    by (auto simp: forkVersionOf_def step_defs)
qed

lemma depositFor_succeeds:
  assumes K: "bestPublicKey env a = Inr pk"
    and F: "if validatorDepositDataForkVersion fl \<noteq> []
       then \<exists>fv. DecodeString (TrimPrefix (validatorDepositDataForkVersion fl) ''0x'') = Inr fv
              \<and> length fv = 4
       else \<forall>n. connect env n = None
              \<and> (\<exists>config fv. FetchChainConfig env n = Inr config
                    \<and> config ''GenesisForkVersion'' = Some (BytesValue fv))"
    and S: "\<forall>d dm e. signStruct env a d dm \<noteq> Inl e"
    and H: "\<forall>x e. HashTreeRoot env x \<noteq> Inl e"
  shows "\<exists>out t'. depositFor env fl w wc val a t = (Inr out, t')"
proof -
  define t1 where "t1 = (if debug fl then t @ [OutputIf (''Deposit data:'' @ [nl, tab] @ ''Public key: '' @ hexEncode (Marshal pk)
        @ [nl, tab] @ ''Withdrawal credentials: '' @ hexEncode wc
        @ [nl, tab] @ ''Value: '' @ decimal (unat val))] else t)"
  from forkVersionOf_succeeds [OF F] obtain fv t2 where
    fv: "forkVersionOf env fl t1 = (Inr fv, t2)" by blast
  from S obtain sg where sg: "signStruct env a (Unsigned \<lparr>PubKey = Marshal pk, WithdrawalCredentials = wc, Value = val\<rparr>)
          (Domain_e2types env (DomainDeposit env) fv ZeroGenesisValidatorsRoot) = Inr sg"
    by (metis sum.exhaust)
  from H obtain root where root: "HashTreeRoot env (Signed \<lparr>PubKey = Marshal pk, WithdrawalCredentials = wc, Value = val,
          Signature = MarshalSignature sg\<rparr>) = Inr root"
    by (metis sum.exhaust)
  from H obtain mroot where mroot: "HashTreeRoot env (Unsigned \<lparr>PubKey = Marshal pk,
                    WithdrawalCredentials = wc, Value = val\<rparr>) = Inr mroot"
    by (metis sum.exhaust)
  show ?thesis
    using K fv sg root mroot
    by (auto simp: depositFor_def renderOutput_def printSignedDepositData_def andThen_def
        prim_defs t1_def)
qed

lemma depositLoop_succeeds:
  assumes K: "\<forall>a \<in> set accts. \<exists>pk. bestPublicKey env a = Inr pk"
    and F: "if validatorDepositDataForkVersion fl \<noteq> []
       then \<exists>fv. DecodeString (TrimPrefix (validatorDepositDataForkVersion fl) ''0x'') = Inr fv
              \<and> length fv = 4
       else \<forall>n. connect env n = None
              \<and> (\<exists>config fv. FetchChainConfig env n = Inr config
                    \<and> config ''GenesisForkVersion'' = Some (BytesValue fv))"
    and S: "\<forall>a \<in> set accts. \<forall>d dm e. signStruct env a d dm \<noteq> Inl e"
    and H: "\<forall>x e. HashTreeRoot env x \<noteq> Inl e"
  shows "\<exists>outs' t'. depositLoop env fl w wc val accts outs t = (Inr outs', t')"
  using K S
proof (induction accts arbitrary: outs t)
  case Nil
  then show ?case by (simp add: ret_def)
next
  case (Cons a accts)
  from Cons.prems obtain pk where pk: "bestPublicKey env a = Inr pk" by auto
  from Cons.prems have Sa: "\<forall>d dm e. signStruct env a d dm \<noteq> Inl e" by simp
  from depositFor_succeeds [OF pk F Sa H] obtain out t1 where
    "depositFor env fl w wc val a t = (Inr out, t1)" by blast
  moreover from Cons.IH Cons.prems obtain outs' t' where
    "depositLoop env fl w wc val accts (outs @ [out]) t1 = (Inr outs', t')"
    by (metis list.set_intros(2))
  ultimately show ?case by (auto simp: andThen_def)
qed

subsection \<open>The deposit value\<close>

lemmas run_defs = Run_def obtainValidatorAccounts_def withdrawalCredentialsOf_def
  depositValueOf_def depositFor_def forkVersionOf_def renderOutput_def printOutputs_def
  printSignedDepositData_def step_defs

lemma Run_below_minimum:
  assumes v: "StringToGWei env (validatorDepositDataDepositValue fl) = Inr v"
    and low: "v < 1000000000"
    and run: "Run env fl [] = (r, t)"
  shows "exitStatus r \<noteq> 0 \<and> signRequests t = [] \<and> stdoutOf t = []"
  using run
proof (cases rule: Run_outcome)
  case (accounts h)
  from obtainValidatorAccounts_any [OF accounts(1)] accounts(2) show ?thesis
    by (simp add: exitFailure_def)
next
  case (credentials w accts t1 h)
  from obtainValidatorAccounts_any [OF credentials(1)]
    withdrawalCredentialsOf_any [OF credentials(2)] credentials(3)
  show ?thesis by (auto simp: exitFailure_def)
next
  case (amount w accts t1 wc t2 h)
  from obtainValidatorAccounts_any [OF amount(1)]
    withdrawalCredentialsOf_any [OF amount(2)] depositValueOf_any [OF amount(3)] amount(4)
  show ?thesis by (auto simp: exitFailure_def)
next
  case (loop w accts t1 wc t2 val h)
  from loop(3) v low show ?thesis by (auto simp: depositValueOf_Inr dest: leD)
next
  case (silent w accts t1 wc t2 val outs)
  from silent(3) v low show ?thesis by (auto simp: depositValueOf_Inr dest: leD)
next
  case (printed w accts t1 wc t2 val outs t3)
  from printed(3) v low show ?thesis by (auto simp: depositValueOf_Inr dest: leD)
qed

lemma Run_succeeds:
  assumes A: "obtainValidatorAccounts env fl [] = (Inr (w, accts), t1)"
    and B: "withdrawalCredentialsOf env fl t1 = (Inr wc, t2)"
    and C: "depositValueOf env fl t2 = (Inr val, t2)"
    and F: "if validatorDepositDataForkVersion fl \<noteq> []
       then \<exists>fv. DecodeString (TrimPrefix (validatorDepositDataForkVersion fl) ''0x'') = Inr fv
              \<and> length fv = 4
       else \<forall>n. connect env n = None
              \<and> (\<exists>config fv. FetchChainConfig env n = Inr config
                    \<and> config ''GenesisForkVersion'' = Some (BytesValue fv))"
    and S: "\<forall>a \<in> set accts. \<forall>d dm e. signStruct env a d dm \<noteq> Inl e"
    and H: "\<forall>x e. HashTreeRoot env x \<noteq> Inl e"
  shows "exitStatus (fst (Run env fl [])) = 0"
proof -
  from obtainValidatorAccounts_Inr [OF A]
  have K: "\<forall>a \<in> set accts. \<exists>pk. bestPublicKey env a = Inr pk" .
  from depositLoop_succeeds [OF K F S H] obtain outs t3 where
    L: "depositLoop env fl w wc val accts [] t2 = (Inr outs, t3)" by blast
  obtain rp tp where P: "printOutputs outs t3 = (rp, tp)"
    by (cases "printOutputs outs t3") auto
  from printOutputs_eq [OF P] have "rp = Inr ()" by simp
  with A B C L P show ?thesis
    by (auto simp: Run_def andThen_def osExit_def ret_def)
qed

text \<open>
  Claim C7.  When the deposit value converts to an amount below 1000000000 Gwei the run ends
  with a nonzero exit status, having asked for no signature and printed nothing.  An amount
  of exactly 1000000000 Gwei passes the check of the value, and the run then ends with status
  0 whenever the accounts and the withdrawal credentials were obtained and no later call
  (fork version, signing, hashing) fails.
\<close>

theorem minimum_deposit_amount:
  assumes "StringToGWei env (validatorDepositDataDepositValue fl) = Inr v"
  shows "(v < 1000000000 \<longrightarrow>
            exitStatus (fst (Run env fl [])) \<noteq> 0
            \<and> signRequests (snd (Run env fl [])) = []
            \<and> stdoutOf (snd (Run env fl [])) = [])
       \<and> (v = 1000000000 \<longrightarrow> validatorDepositDataDepositValue fl \<noteq> [] \<longrightarrow>
            (\<forall>t. depositValueOf env fl t = (Inr v, t))
            \<and> (\<forall>w accts t1 wc t2.
                 obtainValidatorAccounts env fl [] = (Inr (w, accts), t1)
                 \<longrightarrow> withdrawalCredentialsOf env fl t1 = (Inr wc, t2)
                 \<longrightarrow> (if validatorDepositDataForkVersion fl \<noteq> []
                      then \<exists>fv. DecodeString (TrimPrefix (validatorDepositDataForkVersion fl) ''0x'') = Inr fv
                             \<and> length fv = 4
                      else \<forall>n. connect env n = None
                             \<and> (\<exists>config fv. FetchChainConfig env n = Inr config
                                   \<and> config ''GenesisForkVersion'' = Some (BytesValue fv)))
                 \<longrightarrow> (\<forall>a \<in> set accts. \<forall>d dm e. signStruct env a d dm \<noteq> Inl e)
                 \<longrightarrow> (\<forall>x e. HashTreeRoot env x \<noteq> Inl e)
                 \<longrightarrow> exitStatus (fst (Run env fl [])) = 0))"
proof (intro conjI impI allI)
  assume low: "v < 1000000000"
  obtain r t where run: "Run env fl [] = (r, t)" by (cases "Run env fl []") auto
  from Run_below_minimum [OF assms low run] run
  show "exitStatus (fst (Run env fl [])) \<noteq> 0" "signRequests (snd (Run env fl [])) = []"
    "stdoutOf (snd (Run env fl [])) = []"
    by simp_all
next
  fix t
  assume "v = 1000000000" "validatorDepositDataDepositValue fl \<noteq> []"
  with assms show "depositValueOf env fl t = (Inr v, t)"
    by (simp add: depositValueOf_Inr)
next
  fix w accts t1 wc t2
  assume eq: "v = 1000000000" "validatorDepositDataDepositValue fl \<noteq> []"
    and A: "obtainValidatorAccounts env fl [] = (Inr (w, accts), t1)"
    and B: "withdrawalCredentialsOf env fl t1 = (Inr wc, t2)"
    and F: "if validatorDepositDataForkVersion fl \<noteq> []
       then \<exists>fv. DecodeString (TrimPrefix (validatorDepositDataForkVersion fl) ''0x'') = Inr fv
              \<and> length fv = 4
       else \<forall>n. connect env n = None
              \<and> (\<exists>config fv. FetchChainConfig env n = Inr config
                    \<and> config ''GenesisForkVersion'' = Some (BytesValue fv))"
    and S: "\<forall>a \<in> set accts. \<forall>d dm e. signStruct env a d dm \<noteq> Inl e"
    and H: "\<forall>x e. HashTreeRoot env x \<noteq> Inl e"
  from eq assms have C: "depositValueOf env fl t2 = (Inr v, t2)"
    by (simp add: depositValueOf_Inr)
  from Run_succeeds [OF A B C F S H] show "exitStatus (fst (Run env fl [])) = 0" .
qed

subsection \<open>The withdrawal credentials\<close>

lemma TrimPrefix_Nil [simp]: "TrimPrefix [] p = []"
  by (simp add: TrimPrefix_def)

lemma withdrawalCredentialsOf_key:
  assumes key: "(validatorDepositDataWithdrawalAccount fl \<noteq> []
        \<and> (\<exists>w a. walletAndAccountFromPath env (validatorDepositDataWithdrawalAccount fl) = Inr (w, a)
              \<and> bestPublicKey env a = Inr pk))
     \<or> (validatorDepositDataWithdrawalAccount fl = []
        \<and> (\<exists>bs. DecodeString (TrimPrefix (validatorDepositDataWithdrawalPubKey fl) ''0x'') = Inr bs
              \<and> length bs = 48 \<and> BLSPublicKeyFromBytes env bs = Inr pk))"
    and run: "withdrawalCredentialsOf env fl t = (r, t')"
  shows "hashedInputs t' = hashedInputs t @ [Marshal pk]
     \<and> r = (if SHA256 env (Marshal pk) = [] then Inl Panic
            else Inr ((SHA256 env (Marshal pk))[0 := 0]))"
proof -
  from key have ne: "validatorDepositDataWithdrawalAccount fl \<noteq> []
       \<or> validatorDepositDataWithdrawalPubKey fl \<noteq> []"
    by auto
  from key show ?thesis
  proof (elim disjE conjE exE)
    fix w a
    assume "validatorDepositDataWithdrawalAccount fl \<noteq> []"
      "walletAndAccountFromPath env (validatorDepositDataWithdrawalAccount fl) = Inr (w, a)"
      "bestPublicKey env a = Inr pk"
    with run show ?thesis
      by (auto simp: withdrawalCredentialsOf_def step_defs split: if_splits)
  next
    fix bs
    assume "validatorDepositDataWithdrawalAccount fl = []"
      "DecodeString (TrimPrefix (validatorDepositDataWithdrawalPubKey fl) ''0x'') = Inr bs"
      "length bs = 48" "BLSPublicKeyFromBytes env bs = Inr pk"
    with run ne show ?thesis
      by (auto simp: withdrawalCredentialsOf_def step_defs split: if_splits)
  qed
qed

lemma withdrawalCredentialsOf_rejects:
  assumes "validatorDepositDataWithdrawalAccount fl = []"
    and "\<forall>bs pk. DecodeString (TrimPrefix (validatorDepositDataWithdrawalPubKey fl) ''0x'') = Inr bs
           \<longrightarrow> length bs = 48 \<longrightarrow> BLSPublicKeyFromBytes env bs \<noteq> Inr pk"
    and run: "withdrawalCredentialsOf env fl t = (r, t')"
  shows "r = Inl (Exit exitFailure) \<and> hashedInputs t' = hashedInputs t"
  using assms
  by (auto simp: withdrawalCredentialsOf_def step_defs split: if_splits sum.splits)

text \<open>
  Claim C2.  Whichever way the withdrawal public key k is given (a withdrawal account, or
  48 bytes of hexadecimal that parse as a key), and the SHA-256 digest of its marshalled
  bytes having 32 bytes, the withdrawal credentials are that digest with byte 0 overwritten
  by 0x00: 32 bytes, the first of them 0x00, the other 31 those of the digest.  The hash
  is computed once, of the marshalled key.
\<close>

theorem withdrawal_credentials_derivation:
  assumes key: "(validatorDepositDataWithdrawalAccount fl \<noteq> []
        \<and> (\<exists>w a. walletAndAccountFromPath env (validatorDepositDataWithdrawalAccount fl) = Inr (w, a)
              \<and> bestPublicKey env a = Inr k))
     \<or> (validatorDepositDataWithdrawalAccount fl = []
        \<and> (\<exists>bs. DecodeString (TrimPrefix (validatorDepositDataWithdrawalPubKey fl) ''0x'') = Inr bs
              \<and> length bs = 48 \<and> BLSPublicKeyFromBytes env bs = Inr k))"
    and digest: "length (SHA256 env (Marshal k)) = 32"
  shows "fst (withdrawalCredentialsOf env fl t) = Inr ((SHA256 env (Marshal k))[0 := 0])
       \<and> hashedInputs (snd (withdrawalCredentialsOf env fl t)) = hashedInputs t @ [Marshal k]
       \<and> length ((SHA256 env (Marshal k))[0 := 0]) = 32
       \<and> (SHA256 env (Marshal k))[0 := 0] ! 0 = 0
       \<and> drop 1 ((SHA256 env (Marshal k))[0 := 0]) = drop 1 (SHA256 env (Marshal k))"
proof -
  obtain r t' where run: "withdrawalCredentialsOf env fl t = (r, t')"
    by (cases "withdrawalCredentialsOf env fl t") auto
  from digest have ne: "SHA256 env (Marshal k) \<noteq> []" by auto
  from withdrawalCredentialsOf_key [OF key run] ne run digest show ?thesis
    by (simp add: drop_update_cancel)
qed

subsection \<open>Inputs that end the run\<close>

lemma exitStatus_failure:
  "h = Exit exitFailure \<or> h = Panic \<Longrightarrow> exitStatus (Inl h) \<noteq> 0"
  by (auto simp: exitFailure_def)

lemma Run_early_failure:
  assumes run: "Run env fl [] = (r, t)"
    and late: "\<And>w accts t1 wc t2 val r' t'.
       obtainValidatorAccounts env fl [] = (Inr (w, accts), t1) \<Longrightarrow>
       withdrawalCredentialsOf env fl t1 = (Inr wc, t2) \<Longrightarrow>
       depositValueOf env fl t2 = (Inr val, t2) \<Longrightarrow>
       depositLoop env fl w wc val accts [] t2 = (r', t') \<Longrightarrow>
       r' = Inl (Exit exitFailure) \<and> signRequests t' = signRequests t2 \<and> stdoutOf t' = stdoutOf t2"
  shows "exitStatus r \<noteq> 0 \<and> signRequests t = [] \<and> stdoutOf t = []"
  using run
proof (cases rule: Run_outcome)
  case (accounts h)
  from obtainValidatorAccounts_any [OF accounts(1)] accounts(2) show ?thesis
    by (simp add: exitFailure_def)
next
  case (credentials w accts t1 h)
  from obtainValidatorAccounts_any [OF credentials(1)]
    withdrawalCredentialsOf_any [OF credentials(2)] credentials(3)
  show ?thesis by (auto simp: exitFailure_def)
next
  case (amount w accts t1 wc t2 h)
  from obtainValidatorAccounts_any [OF amount(1)]
    withdrawalCredentialsOf_any [OF amount(2)] depositValueOf_any [OF amount(3)] amount(4)
  show ?thesis by (auto simp: exitFailure_def)
next
  case (loop w accts t1 wc t2 val h)
  from late [OF loop(1-4)] obtainValidatorAccounts_any [OF loop(1)]
    withdrawalCredentialsOf_any [OF loop(2)] loop(5)
  show ?thesis by (auto simp: exitFailure_def)
next
  case (silent w accts t1 wc t2 val outs)
  from late [OF silent(1-4)] show ?thesis by simp
next
  case (printed w accts t1 wc t2 val outs t3)
  from late [OF printed(1-4)] show ?thesis by simp
qed

text \<open>
  Claim C8, as amended.  An explicitly supplied fork version whose hexadecimal text does not
  decode to exactly 4 bytes ends the run with a nonzero exit status, with no signing
  request and nothing printed; so does, when no withdrawal account is given, a raw
  withdrawal public key whose text does not decode to exactly 48 bytes.  (When a withdrawal
  account is given, the raw key is never read: line 70.)
\<close>

theorem malformed_fork_version_or_withdrawal_key:
  assumes "(validatorDepositDataForkVersion fl \<noteq> []
        \<and> (\<forall>fv. DecodeString (TrimPrefix (validatorDepositDataForkVersion fl) ''0x'') = Inr fv
              \<longrightarrow> length fv \<noteq> 4))
     \<or> (validatorDepositDataWithdrawalAccount fl = []
        \<and> (\<forall>bs. DecodeString (TrimPrefix (validatorDepositDataWithdrawalPubKey fl) ''0x'') = Inr bs
              \<longrightarrow> length bs \<noteq> 48))"
  shows "exitStatus (fst (Run env fl [])) \<noteq> 0
       \<and> signRequests (snd (Run env fl [])) = []
       \<and> stdoutOf (snd (Run env fl [])) = []"
proof -
  obtain r t where run: "Run env fl [] = (r, t)" by (cases "Run env fl []") auto
  have "exitStatus r \<noteq> 0 \<and> signRequests t = [] \<and> stdoutOf t = []"
  proof (rule Run_early_failure [OF run])
    fix w accts t1 wc t2 val r' t'
    assume A: "obtainValidatorAccounts env fl [] = (Inr (w, accts), t1)"
      and B: "withdrawalCredentialsOf env fl t1 = (Inr wc, t2)"
      and L: "depositLoop env fl w wc val accts [] t2 = (r', t')"
    from obtainValidatorAccounts_any [OF A] have ne: "accts \<noteq> []" by simp
    from assms show "r' = Inl (Exit exitFailure) \<and> signRequests t' = signRequests t2
        \<and> stdoutOf t' = stdoutOf t2"
    proof
      assume "validatorDepositDataForkVersion fl \<noteq> []
        \<and> (\<forall>fv. DecodeString (TrimPrefix (validatorDepositDataForkVersion fl) ''0x'') = Inr fv
              \<longrightarrow> length fv \<noteq> 4)"
      then have "if validatorDepositDataForkVersion fl \<noteq> []
         then \<forall>fv. DecodeString (TrimPrefix (validatorDepositDataForkVersion fl) ''0x'') = Inr fv
                \<longrightarrow> length fv \<noteq> 4
         else (case FetchChainConfig env (count_list t2 CalledFetchChainConfig) of
                 Inl e \<Rightarrow> True | Inr config \<Rightarrow> config ''GenesisForkVersion'' = None)"
        by simp
      from depositLoop_bad_fork [OF L ne this] show ?thesis by simp
    next
      assume "validatorDepositDataWithdrawalAccount fl = []
        \<and> (\<forall>bs. DecodeString (TrimPrefix (validatorDepositDataWithdrawalPubKey fl) ''0x'') = Inr bs
              \<longrightarrow> length bs \<noteq> 48)"
      then have "validatorDepositDataWithdrawalAccount fl = []"
        "\<forall>bs pk. DecodeString (TrimPrefix (validatorDepositDataWithdrawalPubKey fl) ''0x'') = Inr bs
           \<longrightarrow> length bs = 48 \<longrightarrow> BLSPublicKeyFromBytes env bs \<noteq> Inr pk"
        by auto
      from withdrawalCredentialsOf_rejects [OF this B] show ?thesis by simp
    qed
  qed
  with run show ?thesis by simp
qed

text \<open>
  Claim C10, as amended.  When no withdrawal account is given and the raw withdrawal key
  decodes to exactly 48 bytes: if the bytes are not a valid public key, the run ends with
  the failure status before anything is hashed, with no signing request and nothing
  printed; if they are the key k, the one hash computed is that of the re-marshalled key,
  and the credentials are its digest with byte 0 overwritten.
\<close>

theorem invalid_withdrawal_key_rejected:
  assumes "validatorDepositDataWithdrawalAccount fl = []"
    and "DecodeString (TrimPrefix (validatorDepositDataWithdrawalPubKey fl) ''0x'') = Inr bs"
    and "length bs = 48"
  shows "((\<exists>e. BLSPublicKeyFromBytes env bs = Inl e) \<longrightarrow>
            fst (Run env fl []) = Inl (Exit exitFailure)
            \<and> hashedInputs (snd (Run env fl [])) = []
            \<and> signRequests (snd (Run env fl [])) = []
            \<and> stdoutOf (snd (Run env fl [])) = [])
       \<and> (\<forall>k. BLSPublicKeyFromBytes env bs = Inr k \<longrightarrow>
            (\<forall>t. hashedInputs (snd (withdrawalCredentialsOf env fl t)) = hashedInputs t @ [Marshal k]
                \<and> (SHA256 env (Marshal k) \<noteq> [] \<longrightarrow>
                     fst (withdrawalCredentialsOf env fl t) = Inr ((SHA256 env (Marshal k))[0 := 0]))))"
proof (intro conjI impI allI)
  assume bad: "\<exists>e. BLSPublicKeyFromBytes env bs = Inl e"
  obtain r t where run: "Run env fl [] = (r, t)" by (cases "Run env fl []") auto
  from bad assms have rej:
    "\<forall>bs pk. DecodeString (TrimPrefix (validatorDepositDataWithdrawalPubKey fl) ''0x'') = Inr bs
           \<longrightarrow> length bs = 48 \<longrightarrow> BLSPublicKeyFromBytes env bs \<noteq> Inr pk"
    by auto
  from run have "r = Inl (Exit exitFailure) \<and> hashedInputs t = [] \<and> signRequests t = []
      \<and> stdoutOf t = []"
  proof (cases rule: Run_outcome)
    case (accounts h)
    from obtainValidatorAccounts_any [OF accounts(1)] accounts(2) show ?thesis by simp
  next
    case (credentials w accts t1 h)
    from obtainValidatorAccounts_any [OF credentials(1)]
      withdrawalCredentialsOf_any [OF credentials(2)]
      withdrawalCredentialsOf_rejects [OF assms(1) rej credentials(2)] credentials(3)
    show ?thesis by simp
  next
    case (amount w accts t1 wc t2 h)
    from withdrawalCredentialsOf_rejects [OF assms(1) rej amount(2)] show ?thesis by simp
  next
    case (loop w accts t1 wc t2 val h)
    from withdrawalCredentialsOf_rejects [OF assms(1) rej loop(2)] show ?thesis by simp
  next
    case (silent w accts t1 wc t2 val outs)
    from withdrawalCredentialsOf_rejects [OF assms(1) rej silent(2)] show ?thesis by simp
  next
    case (printed w accts t1 wc t2 val outs t3)
    from withdrawalCredentialsOf_rejects [OF assms(1) rej printed(2)] show ?thesis by simp
  qed
  with run show "fst (Run env fl []) = Inl (Exit exitFailure)"
    "hashedInputs (snd (Run env fl [])) = []" "signRequests (snd (Run env fl [])) = []"
    "stdoutOf (snd (Run env fl [])) = []"
    by simp_all
next
  fix k t
  assume k: "BLSPublicKeyFromBytes env bs = Inr k"
  obtain r t' where run: "withdrawalCredentialsOf env fl t = (r, t')"
    by (cases "withdrawalCredentialsOf env fl t") auto
  from assms k have key: "(validatorDepositDataWithdrawalAccount fl \<noteq> []
        \<and> (\<exists>w a. walletAndAccountFromPath env (validatorDepositDataWithdrawalAccount fl) = Inr (w, a)
              \<and> bestPublicKey env a = Inr k))
     \<or> (validatorDepositDataWithdrawalAccount fl = []
        \<and> (\<exists>bs. DecodeString (TrimPrefix (validatorDepositDataWithdrawalPubKey fl) ''0x'') = Inr bs
              \<and> length bs = 48 \<and> BLSPublicKeyFromBytes env bs = Inr k))"
    by auto
  note K = withdrawalCredentialsOf_key [OF key run]
  from K run show "hashedInputs (snd (withdrawalCredentialsOf env fl t)) = hashedInputs t @ [Marshal k]"
    by simp
  assume "SHA256 env (Marshal k) \<noteq> []"
  with K run show "fst (withdrawalCredentialsOf env fl t) = Inr ((SHA256 env (Marshal k))[0 := 0])"
    by simp
qed

text \<open>
  Claim C5, as amended.  When no fork version is supplied and the first fetch of the chain
  configuration fails, or its answer has no genesis fork version, the run ends with a
  nonzero exit status, with no signing request and nothing printed to standard output.
  On every run that ends with a nonzero status no deposit output is printed: all that
  \<^verbatim>\<open>Run\<close> itself has printed to standard output is the debug block of each validator
  signed before the failure, which is nothing when debug is off.  (Where the helper
  \<^verbatim>\<open>outputIf\<close> writes its messages is not part of this statement.)
\<close>

theorem configuration_unavailable:
  "(validatorDepositDataForkVersion fl = []
      \<and> (case FetchChainConfig env 0 of
            Inl e \<Rightarrow> True | Inr config \<Rightarrow> config ''GenesisForkVersion'' = None)
     \<longrightarrow> exitStatus (fst (Run env fl [])) \<noteq> 0
         \<and> signRequests (snd (Run env fl [])) = []
         \<and> stdoutOf (snd (Run env fl [])) = [])
   \<and> (exitStatus (fst (Run env fl [])) \<noteq> 0
     \<longrightarrow> (\<exists>sds. stdoutOf (snd (Run env fl [])) = concat (map signedDepositDataText sds)
               \<and> (\<not> debug fl \<longrightarrow> sds = [])))"
proof (rule conjI; rule impI)
  assume bad: "validatorDepositDataForkVersion fl = []
      \<and> (case FetchChainConfig env 0 of
            Inl e \<Rightarrow> True | Inr config \<Rightarrow> config ''GenesisForkVersion'' = None)"
  obtain r t where run: "Run env fl [] = (r, t)" by (cases "Run env fl []") auto
  have "exitStatus r \<noteq> 0 \<and> signRequests t = [] \<and> stdoutOf t = []"
  proof (rule Run_early_failure [OF run])
    fix w accts t1 wc t2 val r' t'
    assume A: "obtainValidatorAccounts env fl [] = (Inr (w, accts), t1)"
      and B: "withdrawalCredentialsOf env fl t1 = (Inr wc, t2)"
      and L: "depositLoop env fl w wc val accts [] t2 = (r', t')"
    from obtainValidatorAccounts_any [OF A] have ne: "accts \<noteq> []"
      and c1: "count_list t1 CalledFetchChainConfig = 0" by simp_all
    from withdrawalCredentialsOf_any [OF B] c1
    have c2: "count_list t2 CalledFetchChainConfig = 0" by simp
    from bad c2 have "if validatorDepositDataForkVersion fl \<noteq> []
         then \<forall>fv. DecodeString (TrimPrefix (validatorDepositDataForkVersion fl) ''0x'') = Inr fv
                \<longrightarrow> length fv \<noteq> 4
         else (case FetchChainConfig env (count_list t2 CalledFetchChainConfig) of
                 Inl e \<Rightarrow> True | Inr config \<Rightarrow> config ''GenesisForkVersion'' = None)"
      by simp
    from depositLoop_bad_fork [OF L ne this]
    show "r' = Inl (Exit exitFailure) \<and> signRequests t' = signRequests t2
        \<and> stdoutOf t' = stdoutOf t2" by simp
  qed
  with run show "exitStatus (fst (Run env fl [])) \<noteq> 0
         \<and> signRequests (snd (Run env fl [])) = []
         \<and> stdoutOf (snd (Run env fl [])) = []" by simp
next
  assume failed: "exitStatus (fst (Run env fl [])) \<noteq> 0"
  obtain r t where run: "Run env fl [] = (r, t)" by (cases "Run env fl []") auto
  from run have "\<exists>sds. stdoutOf t = concat (map signedDepositDataText sds)
               \<and> (\<not> debug fl \<longrightarrow> sds = [])"
  proof (cases rule: Run_outcome)
    case (accounts h)
    from obtainValidatorAccounts_any [OF accounts(1)] show ?thesis
      by (intro exI [of _ "[]"]) simp
  next
    case (credentials w accts t1 h)
    from obtainValidatorAccounts_any [OF credentials(1)]
      withdrawalCredentialsOf_any [OF credentials(2)]
    show ?thesis by (intro exI [of _ "[]"]) simp
  next
    case (amount w accts t1 wc t2 h)
    from obtainValidatorAccounts_any [OF amount(1)]
      withdrawalCredentialsOf_any [OF amount(2)] depositValueOf_any [OF amount(3)]
    show ?thesis by (intro exI [of _ "[]"]) simp
  next
    case (loop w accts t1 wc t2 val h)
    from obtainValidatorAccounts_any [OF loop(1)]
      withdrawalCredentialsOf_any [OF loop(2)] depositLoop_any [OF loop(4)]
    show ?thesis by auto
  next
    case (silent w accts t1 wc t2 val outs)
    with failed run show ?thesis by simp
  next
    case (printed w accts t1 wc t2 val outs t3)
    with failed run show ?thesis by simp
  qed
  with run show "\<exists>sds. stdoutOf (snd (Run env fl [])) = concat (map signedDepositDataText sds)
               \<and> (\<not> debug fl \<longrightarrow> sds = [])" by simp
qed

lemma Run_success_trace:
  assumes ok: "exitStatus (fst (Run env fl [])) = 0"
  obtains w accts t1 wc t2 val outs t3 where
    "obtainValidatorAccounts env fl [] = (Inr (w, accts), t1)"
    "withdrawalCredentialsOf env fl t1 = (Inr wc, t2)"
    "depositValueOf env fl t2 = (Inr val, t2)"
    "depositLoop env fl w wc val accts [] t2 = (Inr outs, t3)"
    "signRequests (snd (Run env fl [])) = signRequests t3"
    "hashedInputs (snd (Run env fl [])) = hashedInputs t3"
    "count_list (snd (Run env fl [])) CalledFetchChainConfig = count_list t3 CalledFetchChainConfig"
    "count_list (snd (Run env fl [])) CalledConnect = count_list t3 CalledConnect"
    "stdoutOf (snd (Run env fl [])) = stdoutOf t3 @
       (if quiet fl then []
        else if length outs = 1 then outs ! 0 @ [nl] else ''['' @ Join outs '','' @ '']'' @ [nl])"
proof -
  obtain r t where run: "Run env fl [] = (r, t)" by (cases "Run env fl []") auto
  from run show ?thesis
  proof (cases rule: Run_outcome)
    case (accounts h)
    from obtainValidatorAccounts_any [OF accounts(1)] accounts(2) ok run show ?thesis
      by (simp add: exitFailure_def)
  next
    case (credentials w accts t1 h)
    from withdrawalCredentialsOf_any [OF credentials(2)] credentials(3) ok run show ?thesis
      by (auto simp: exitFailure_def)
  next
    case (amount w accts t1 wc t2 h)
    from depositValueOf_any [OF amount(3)] amount(4) ok run show ?thesis
      by (auto simp: exitFailure_def)
  next
    case (loop w accts t1 wc t2 val h)
    from depositLoop_any [OF loop(4)] loop(5) ok run show ?thesis
      by (auto simp: exitFailure_def)
  next
    case (silent w accts t1 wc t2 val outs)
    with run show ?thesis
      by (intro that [of w accts t1 wc t2 val outs t]) simp_all
  next
    case (printed w accts t1 wc t2 val outs t3)
    from printOutputs_eq [OF printed(6)] printed run show ?thesis
      by (intro that [of w accts t1 wc t2 val outs t3]) simp_all
  qed
qed

text \<open>
  Claim C6, as amended.  In a run that ends with status 0 over the accounts the wallet
  resolver returned, the withdrawal credentials are computed once (one hash) and every
  signing request, one per account and in their order, carries these credentials and the
  one amount.  The fork version and the domain are computed again in every pass of the
  loop: with an explicit fork version the chain configuration is never fetched and every
  request is signed under the domain of the decoded version; without one, the beacon node
  is connected to and the configuration fetched once per validator.
\<close>


theorem batch_shared_values:
  assumes ok: "exitStatus (fst (Run env fl [])) = 0"
    and resolved: "walletAndAccountsFromPath env (validatorDepositDataValidatorAccount fl) = Inr (w, accts)"
  shows "\<exists>k wc val.
      hashedInputs (snd (Run env fl [])) = [Marshal k]
      \<and> wc = (SHA256 env (Marshal k))[0 := 0]
      \<and> list_all2 (\<lambda>a q. \<exists>pk fv. q = (a, Unsigned \<lparr>PubKey = Marshal pk,
                WithdrawalCredentials = wc, Value = val\<rparr>,
                Domain_e2types env (DomainDeposit env) fv ZeroGenesisValidatorsRoot)
              \<and> bestPublicKey env a = Inr pk
              \<and> (validatorDepositDataForkVersion fl \<noteq> [] \<longrightarrow>
                   DecodeString (TrimPrefix (validatorDepositDataForkVersion fl) ''0x'') = Inr fv))
            accts (signRequests (snd (Run env fl [])))
      \<and> count_list (snd (Run env fl [])) CalledFetchChainConfig
           = (if validatorDepositDataForkVersion fl \<noteq> [] then 0 else length accts)
      \<and> count_list (snd (Run env fl [])) CalledConnect
           = (if validatorDepositDataForkVersion fl \<noteq> [] then 0 else length accts)"
proof -
  from ok obtain w' accts' t1 wc t2 val outs t3 where
    A: "obtainValidatorAccounts env fl [] = (Inr (w', accts'), t1)"
    and B: "withdrawalCredentialsOf env fl t1 = (Inr wc, t2)"
    and L: "depositLoop env fl w' wc val accts' [] t2 = (Inr outs, t3)"
    and T: "signRequests (snd (Run env fl [])) = signRequests t3"
      "hashedInputs (snd (Run env fl [])) = hashedInputs t3"
      "count_list (snd (Run env fl [])) CalledFetchChainConfig = count_list t3 CalledFetchChainConfig"
      "count_list (snd (Run env fl [])) CalledConnect = count_list t3 CalledConnect"
    by (rule Run_success_trace)
  note A' = obtainValidatorAccounts_any [OF A]
  from A' resolved have same: "w' = w" "accts' = accts" by simp_all
  from withdrawalCredentialsOf_Inr [OF B] obtain k where
    k: "hashedInputs t2 = hashedInputs t1 @ [Marshal k]" "wc = (SHA256 env (Marshal k))[0 := 0]"
    by blast
  note B' = withdrawalCredentialsOf_any [OF B]
  from depositLoop_Inr [OF L] obtain srs where
    S: "signRequests t3 = signRequests t2 @ srs"
      "list_all2 (\<lambda>a q. \<exists>pk fv. q = (a, Unsigned \<lparr>PubKey = Marshal pk,
                WithdrawalCredentials = wc, Value = val\<rparr>,
                Domain_e2types env (DomainDeposit env) fv ZeroGenesisValidatorsRoot)
              \<and> bestPublicKey env a = Inr pk
              \<and> (validatorDepositDataForkVersion fl \<noteq> [] \<longrightarrow>
                   DecodeString (TrimPrefix (validatorDepositDataForkVersion fl) ''0x'') = Inr fv))
            accts' srs"
      "count_list t3 CalledFetchChainConfig = count_list t2 CalledFetchChainConfig
            + (if validatorDepositDataForkVersion fl \<noteq> [] then 0 else length accts')"
      "count_list t3 CalledConnect = count_list t2 CalledConnect
            + (if validatorDepositDataForkVersion fl \<noteq> [] then 0 else length accts')"
    by blast
  from depositLoop_any [OF L] have h3: "hashedInputs t3 = hashedInputs t2" by simp
  show ?thesis
    apply (rule exI [of _ k])
    apply (rule exI [of _ wc])
    apply (rule exI [of _ val])
    using A' B' k S h3 T same by simp
qed

subsection \<open>What a run that returns has printed\<close>

lemma defaultOutput_render:
  assumes "PubKey sd \<noteq> []" "WithdrawalCredentials sd \<noteq> []" "Signature sd \<noteq> []" "root \<noteq> []"
  shows "defaultOutput wn an sd val root = renderObject
     [(''name'', JString (''Deposit for '' @ wn @ ''/'' @ an)),
      (''account'', JString (wn @ ''/'' @ an)),
      (''pubkey'', JString (''0x'' @ hexEncode (PubKey sd))),
      (''withdrawal_credentials'', JString (''0x'' @ hexEncode (WithdrawalCredentials sd))),
      (''signature'', JString (''0x'' @ hexEncode (Signature sd))),
      (''value'', JNumber (unat val)),
      (''deposit_data_root'', JString (''0x'' @ hexEncode root)),
      (''version'', JNumber 2)]"
proof -
  have "decimal 2 = ''2''" by (simp add: decimal.simps digit_def)
  with assms show ?thesis
    by (simp add: defaultOutput_def renderObject_def renderMember_def sharpHex_def dq_def)
qed

lemma Run_returns:
  assumes run: "Run env fl [] = (Inr (), t)"
  obtains w accts t1 wc t2 val outs t3 where
    "obtainValidatorAccounts env fl [] = (Inr (w, accts), t1)"
    "withdrawalCredentialsOf env fl t1 = (Inr wc, t2)"
    "depositValueOf env fl t2 = (Inr val, t2)"
    "depositLoop env fl w wc val accts [] t2 = (Inr outs, t3)"
    "stdoutOf t = stdoutOf t3 @
       (if length outs = 1 then outs ! 0 @ [nl] else ''['' @ Join outs '','' @ '']'' @ [nl])"
    "stdoutOf t2 = []"
  using run
proof (cases rule: Run_outcome)
  case (printed w accts t1 wc t2 val outs t3)
  from obtainValidatorAccounts_any [OF printed(1)] withdrawalCredentialsOf_any [OF printed(2)]
  have "stdoutOf t2 = []" by simp
  with printOutputs_eq [OF printed(6)] printed show ?thesis
    by (intro that [of w accts t1 wc t2 val outs t3]) simp_all
qed simp_all

text \<open>
  Claim C3.  When \<^verbatim>\<open>Run\<close> returns, what it has printed to standard output ends with the
  results of the loop, one per account the wallet resolver returned and in their order:
  for one account the single result and a newline; otherwise an opening bracket, the
  results joined by commas, a closing bracket and a newline.  Before it stand only the
  debug blocks, and nothing when debug is off.
\<close>

theorem batch_output:
  assumes run: "Run env fl [] = (Inr (), t)"
    and resolved: "walletAndAccountsFromPath env (validatorDepositDataValidatorAccount fl) = Inr (w, accts)"
  shows "\<exists>wc val outs sds.
      list_all2 (\<lambda>a out. \<exists>u u'. depositFor env fl w wc val a u = (Inr out, u')) accts outs
      \<and> (\<not> debug fl \<longrightarrow> sds = [])
      \<and> stdoutOf t = concat (map signedDepositDataText sds) @
           (if length accts = 1 then outs ! 0 @ [nl]
            else ''['' @ Join outs '','' @ '']'' @ [nl])"
proof -
  from run obtain w' accts' t1 wc t2 val outs t3 where
    A: "obtainValidatorAccounts env fl [] = (Inr (w', accts'), t1)"
    and L: "depositLoop env fl w' wc val accts' [] t2 = (Inr outs, t3)"
    and P: "stdoutOf t = stdoutOf t3 @
       (if length outs = 1 then outs ! 0 @ [nl] else ''['' @ Join outs '','' @ '']'' @ [nl])"
    and E: "stdoutOf t2 = []"
    by (rule Run_returns)
  from obtainValidatorAccounts_any [OF A] resolved have same: "w' = w" "accts' = accts"
    by simp_all
  from depositLoop_Inr [OF L] have
    R: "list_all2 (\<lambda>a out. \<exists>u u'. depositFor env fl w' wc val a u = (Inr out, u')) accts' outs"
    by auto
  then have len: "length accts' = length outs" by (rule list_all2_lengthD)
  from depositLoop_any [OF L] E obtain sds where
    D: "stdoutOf t3 = concat (map signedDepositDataText sds)" "\<not> debug fl \<longrightarrow> sds = []"
    by auto
  show ?thesis
    apply (rule exI [of _ wc])
    apply (rule exI [of _ val])
    apply (rule exI [of _ outs])
    apply (rule exI [of _ sds])
    using R len D P same by simp
qed

text \<open>
  Claim C9.  In default mode (neither raw nor launchpad), when \<^verbatim>\<open>Run\<close> returns, every
  result printed is an object with exactly the members name, account, pubkey,
  withdrawal_credentials, signature, value, deposit_data_root and version, in this order:
  version is the literal 2, value the amount in Gwei in decimal, and every byte field
  lower-case hexadecimal after \<^verbatim>\<open>0x\<close>.  Public keys, signatures and roots are not empty (the
  collaborators return 48, 96 and 32 bytes); names are written as they are.
\<close>

theorem default_mode_object:
  assumes run: "Run env fl [] = (Inr (), t)"
    and mode: "\<not> validatorDepositDataRaw fl" "\<not> validatorDepositDataLaunchpad fl"
    and resolved: "walletAndAccountsFromPath env (validatorDepositDataValidatorAccount fl) = Inr (w, accts)"
    and keys: "\<forall>a pk. bestPublicKey env a = Inr pk \<longrightarrow> Marshal pk \<noteq> []"
    and sigs: "\<forall>a d dm sg. signStruct env a d dm = Inr sg \<longrightarrow> MarshalSignature sg \<noteq> []"
    and roots: "\<forall>x root. HashTreeRoot env x = Inr root \<longrightarrow> root \<noteq> []"
  shows "\<exists>wc val outs sds.
      StringToGWei env (validatorDepositDataDepositValue fl) = Inr val
      \<and> list_all2 (\<lambda>a out. \<exists>pk sg root. out = renderObject
           [(''name'', JString (''Deposit for '' @ Name w @ ''/'' @ accountName env a)),
            (''account'', JString (Name w @ ''/'' @ accountName env a)),
            (''pubkey'', JString (''0x'' @ hexEncode (Marshal pk))),
            (''withdrawal_credentials'', JString (''0x'' @ hexEncode wc)),
            (''signature'', JString (''0x'' @ hexEncode (MarshalSignature sg))),
            (''value'', JNumber (unat val)),
            (''deposit_data_root'', JString (''0x'' @ hexEncode root)),
            (''version'', JNumber 2)]) accts outs
      \<and> (\<not> debug fl \<longrightarrow> sds = [])
      \<and> stdoutOf t = concat (map signedDepositDataText sds) @
           (if length accts = 1 then outs ! 0 @ [nl]
            else ''['' @ Join outs '','' @ '']'' @ [nl])"
proof -
  from run obtain w' accts' t1 wc t2 val outs t3 where
    A: "obtainValidatorAccounts env fl [] = (Inr (w', accts'), t1)"
    and B: "withdrawalCredentialsOf env fl t1 = (Inr wc, t2)"
    and C: "depositValueOf env fl t2 = (Inr val, t2)"
    and L: "depositLoop env fl w' wc val accts' [] t2 = (Inr outs, t3)"
    and P: "stdoutOf t = stdoutOf t3 @
       (if length outs = 1 then outs ! 0 @ [nl] else ''['' @ Join outs '','' @ '']'' @ [nl])"
    and E: "stdoutOf t2 = []"
    by (rule Run_returns)
  from obtainValidatorAccounts_any [OF A] resolved have same: "w' = w" "accts' = accts"
    by simp_all
  from withdrawalCredentialsOf_Inr [OF B] have wc: "wc \<noteq> []" by simp
  from C have val: "StringToGWei env (validatorDepositDataDepositValue fl) = Inr val"
    by (simp add: depositValueOf_Inr)
  from depositLoop_Inr [OF L] have
    R: "list_all2 (\<lambda>a out. \<exists>u u'. depositFor env fl w' wc val a u = (Inr out, u')) accts' outs"
    by auto
  then have len: "length accts' = length outs" by (rule list_all2_lengthD)
  have step: "\<exists>pk sg root. out = renderObject
           [(''name'', JString (''Deposit for '' @ Name w' @ ''/'' @ accountName env a)),
            (''account'', JString (Name w' @ ''/'' @ accountName env a)),
            (''pubkey'', JString (''0x'' @ hexEncode (Marshal pk))),
            (''withdrawal_credentials'', JString (''0x'' @ hexEncode wc)),
            (''signature'', JString (''0x'' @ hexEncode (MarshalSignature sg))),
            (''value'', JNumber (unat val)),
            (''deposit_data_root'', JString (''0x'' @ hexEncode root)),
            (''version'', JNumber 2)]"
    if "\<exists>u u'. depositFor env fl w' wc val a u = (Inr out, u')" for a out
  proof -
    from that obtain u u' where "depositFor env fl w' wc val a u = (Inr out, u')" by blast
    from depositFor_Inr [OF this] mode obtain pk fv sg root where
      F: "bestPublicKey env a = Inr pk"
        "signStruct env a (Unsigned \<lparr>PubKey = Marshal pk, WithdrawalCredentials = wc, Value = val\<rparr>)
          (Domain_e2types env (DomainDeposit env) fv ZeroGenesisValidatorsRoot) = Inr sg"
        "HashTreeRoot env (Signed \<lparr>PubKey = Marshal pk, WithdrawalCredentials = wc, Value = val,
          Signature = MarshalSignature sg\<rparr>) = Inr root"
        "out = defaultOutput (Name w') (accountName env a)
                \<lparr>PubKey = Marshal pk, WithdrawalCredentials = wc, Value = val,
                 Signature = MarshalSignature sg\<rparr> val root"
      by auto
    from F keys sigs roots have "Marshal pk \<noteq> []" "MarshalSignature sg \<noteq> []" "root \<noteq> []"
      by blast+
    with wc F(4) have "out = renderObject
           [(''name'', JString (''Deposit for '' @ Name w' @ ''/'' @ accountName env a)),
            (''account'', JString (Name w' @ ''/'' @ accountName env a)),
            (''pubkey'', JString (''0x'' @ hexEncode (Marshal pk))),
            (''withdrawal_credentials'', JString (''0x'' @ hexEncode wc)),
            (''signature'', JString (''0x'' @ hexEncode (MarshalSignature sg))),
            (''value'', JNumber (unat val)),
            (''deposit_data_root'', JString (''0x'' @ hexEncode root)),
            (''version'', JNumber 2)]"
      by (simp add: defaultOutput_render)
    then show ?thesis by blast
  qed
  from R step have R': "list_all2 (\<lambda>a out. \<exists>pk sg root. out = renderObject
           [(''name'', JString (''Deposit for '' @ Name w' @ ''/'' @ accountName env a)),
            (''account'', JString (Name w' @ ''/'' @ accountName env a)),
            (''pubkey'', JString (''0x'' @ hexEncode (Marshal pk))),
            (''withdrawal_credentials'', JString (''0x'' @ hexEncode wc)),
            (''signature'', JString (''0x'' @ hexEncode (MarshalSignature sg))),
            (''value'', JNumber (unat val)),
            (''deposit_data_root'', JString (''0x'' @ hexEncode root)),
            (''version'', JNumber 2)]) accts' outs"
    by (rule list_all2_mono)
  from depositLoop_any [OF L] E obtain sds where
    D: "stdoutOf t3 = concat (map signedDepositDataText sds)" "\<not> debug fl \<longrightarrow> sds = []"
    by auto
  show ?thesis
    apply (rule exI [of _ wc])
    apply (rule exI [of _ val])
    apply (rule exI [of _ outs])
    apply (rule exI [of _ sds])
    using R' len D P same val by simp
qed

subsection \<open>Concrete runs\<close>

lemmas example_defs = exampleEnv_def exampleFlags_def

theorem withdrawal_credentials_derivation_witness:
  "fst (withdrawalCredentialsOf (exampleEnv\<lparr>SHA256 := \<lambda>b. replicate 32 0xBB\<rparr>) exampleFlags [])
     = Inr (0 # replicate 31 0xBB)"
proof -
  let ?env = "exampleEnv\<lparr>SHA256 := \<lambda>b. replicate 32 0xBB\<rparr>"
  have key: "(validatorDepositDataWithdrawalAccount exampleFlags \<noteq> []
        \<and> (\<exists>w a. walletAndAccountFromPath ?env (validatorDepositDataWithdrawalAccount exampleFlags) = Inr (w, a)
              \<and> bestPublicKey ?env a = Inr (BLSPublicKey [0xAA])))
     \<or> (validatorDepositDataWithdrawalAccount exampleFlags = []
        \<and> (\<exists>bs. DecodeString (TrimPrefix (validatorDepositDataWithdrawalPubKey exampleFlags) ''0x'') = Inr bs
              \<and> length bs = 48 \<and> BLSPublicKeyFromBytes ?env bs = Inr (BLSPublicKey [0xAA])))"
    by (simp add: example_defs)
  have digest: "length (SHA256 ?env (Marshal (BLSPublicKey [0xAA]))) = 32"
    by (simp add: example_defs)
  have "(replicate 32 (0xBB :: byte))[0 := 0] = 0 # replicate 31 0xBB"
    by (simp add: numeral_eq_Suc)
  with withdrawal_credentials_derivation [OF key digest, of "[]"] show ?thesis
    by (simp add: example_defs)
qed

theorem minimum_deposit_amount_witness:
  "exitStatus (fst (Run exampleEnv (exampleFlags\<lparr>validatorDepositDataDepositValue := ''0.5 Ether''\<rparr>) [])) \<noteq> 0
   \<and> exitStatus (fst (Run exampleEnv (exampleFlags\<lparr>validatorDepositDataDepositValue := ''1 Ether''\<rparr>) [])) = 0"
proof -
  let ?lo = "exampleFlags\<lparr>validatorDepositDataDepositValue := ''0.5 Ether''\<rparr>"
  let ?eq = "exampleFlags\<lparr>validatorDepositDataDepositValue := ''1 Ether''\<rparr>"
  have lo: "StringToGWei exampleEnv (validatorDepositDataDepositValue ?lo) = Inr 500000000"
    by (simp add: example_defs)
  have eq: "StringToGWei exampleEnv (validatorDepositDataDepositValue ?eq) = Inr 1000000000"
    by (simp add: example_defs)
  have A: "obtainValidatorAccounts exampleEnv ?eq [] = (Inr (Wallet ''w'', [''a'', ''b'']), [])"
    by (simp add: example_defs obtainValidatorAccounts_def step_defs)
  have B: "withdrawalCredentialsOf exampleEnv ?eq [] = (Inr [0, 0xBC], [CalledSHA256 [0xAA]])"
    by (simp add: example_defs withdrawalCredentialsOf_def step_defs)
  have F: "if validatorDepositDataForkVersion ?eq \<noteq> []
       then \<exists>fv. DecodeString (TrimPrefix (validatorDepositDataForkVersion ?eq) ''0x'') = Inr fv
              \<and> length fv = 4
       else \<forall>n. connect exampleEnv n = None
              \<and> (\<exists>config fv. FetchChainConfig exampleEnv n = Inr config
                    \<and> config ''GenesisForkVersion'' = Some (BytesValue fv))"
    by (simp add: example_defs)
  have S: "\<forall>a \<in> set [''a'', ''b'']. \<forall>d dm e. signStruct exampleEnv a d dm \<noteq> Inl e"
    by (simp add: example_defs)
  have H: "\<forall>x e. HashTreeRoot exampleEnv x \<noteq> Inl e"
    by (simp add: example_defs)
  have ne: "validatorDepositDataDepositValue ?eq \<noteq> []"
    by (simp add: example_defs)
  note T = minimum_deposit_amount
  from T [OF lo] have 1: "exitStatus (fst (Run exampleEnv ?lo [])) \<noteq> 0"
    by simp
  from T [OF eq] ne A B F S H have 2: "exitStatus (fst (Run exampleEnv ?eq [])) = 0"
    by blast
  from 1 2 show ?thesis by simp
qed

lemma example_run:
  "fst (Run exampleEnv exampleFlags []) = Inr ()"
  "count_list (snd (Run exampleEnv exampleFlags [])) CalledFetchChainConfig = 2"
  by (simp_all add: run_defs example_defs)

theorem fetched_once_per_validator:
  "walletAndAccountsFromPath exampleEnv (validatorDepositDataValidatorAccount exampleFlags)
     = Inr (Wallet ''w'', [''a'', ''b''])
   \<and> exitStatus (fst (Run exampleEnv exampleFlags [])) = 0
   \<and> count_list (snd (Run exampleEnv exampleFlags [])) CalledFetchChainConfig = 2"
  by (simp add: example_run) (simp add: example_defs)

theorem batch_shared_values_witness:
  "\<exists>k wc val.
      hashedInputs (snd (Run exampleEnv exampleFlags [])) = [Marshal k]
      \<and> wc = (SHA256 exampleEnv (Marshal k))[0 := 0]
      \<and> list_all2 (\<lambda>a q. \<exists>pk fv. q = (a, Unsigned \<lparr>PubKey = Marshal pk,
                WithdrawalCredentials = wc, Value = val\<rparr>,
                Domain_e2types exampleEnv (DomainDeposit exampleEnv) fv ZeroGenesisValidatorsRoot)
              \<and> bestPublicKey exampleEnv a = Inr pk
              \<and> (validatorDepositDataForkVersion exampleFlags \<noteq> [] \<longrightarrow>
                   DecodeString (TrimPrefix (validatorDepositDataForkVersion exampleFlags) ''0x'') = Inr fv))
            [''a'', ''b''] (signRequests (snd (Run exampleEnv exampleFlags [])))
      \<and> count_list (snd (Run exampleEnv exampleFlags [])) CalledFetchChainConfig
           = (if validatorDepositDataForkVersion exampleFlags \<noteq> [] then 0 else length [''a'', ''b''])
      \<and> count_list (snd (Run exampleEnv exampleFlags [])) CalledConnect
           = (if validatorDepositDataForkVersion exampleFlags \<noteq> [] then 0 else length [''a'', ''b''])"
proof (rule batch_shared_values)
  show "exitStatus (fst (Run exampleEnv exampleFlags [])) = 0"
    by (simp add: example_run)
  show "walletAndAccountsFromPath exampleEnv (validatorDepositDataValidatorAccount exampleFlags)
     = Inr (Wallet ''w'', [''a'', ''b''])"
    by (simp add: example_defs)
qed

theorem batch_output_witness:
  "\<exists>wc val outs sds.
      list_all2 (\<lambda>a out. \<exists>u u'. depositFor exampleEnv exampleFlags (Wallet ''w'') wc val a u = (Inr out, u'))
        [''a'', ''b''] outs
      \<and> (\<not> debug exampleFlags \<longrightarrow> sds = [])
      \<and> stdoutOf (snd (Run exampleEnv exampleFlags [])) = concat (map signedDepositDataText sds) @
           (if length [''a'', ''b''] = 1 then outs ! 0 @ [nl]
            else ''['' @ Join outs '','' @ '']'' @ [nl])"
proof (rule batch_output)
  show "Run exampleEnv exampleFlags [] = (Inr (), snd (Run exampleEnv exampleFlags []))"
    by (simp add: example_run prod_eq_iff)
  show "walletAndAccountsFromPath exampleEnv (validatorDepositDataValidatorAccount exampleFlags)
     = Inr (Wallet ''w'', [''a'', ''b''])"
    by (simp add: example_defs)
qed

end
